theory Spec2Isabelle
  imports Complex_Main "HOL-Library.Sublist"
begin

section \<open>JavaScript values and strings\<close>

text \<open>
  Nullable strings of the source (\<^verbatim>\<open>undefined\<close>, \<^verbatim>\<open>null\<close> or a string) are \<open>string option\<close>.
  A value is truthy when it is a non-empty string.
\<close>

definition truthy_str :: "string option \<Rightarrow> bool" where
  "truthy_str v = (case v of None \<Rightarrow> False | Some s \<Rightarrow> s \<noteq> [])"

text \<open>\<^verbatim>\<open>v || d\<close> on a nullable string.\<close>

definition or_else :: "string option \<Rightarrow> string \<Rightarrow> string" where
  "or_else v d = (case v of None \<Rightarrow> d | Some s \<Rightarrow> (if s = [] then d else s))"

text \<open>\<^verbatim>\<open>v || null\<close> on a nullable string.\<close>

definition or_null :: "string option \<Rightarrow> string option" where
  "or_null v = (if truthy_str v then v else None)"

text \<open>\<^verbatim>\<open>toLowerCase\<close> on the ASCII letters; every other character is left as it is.\<close>

definition toLowerChar :: "char \<Rightarrow> char" where
  "toLowerChar c =
     (case map_of (zip ''ABCDEFGHIJKLMNOPQRSTUVWXYZ'' ''abcdefghijklmnopqrstuvwxyz'') c of
        None \<Rightarrow> c
      | Some l \<Rightarrow> l)"

definition toLowerCase :: "string \<Rightarrow> string" where
  "toLowerCase s = map toLowerChar s"

text \<open>
  \<open>match_ci pat s\<close>: when \<open>s\<close> starts with the lower-case pattern \<open>pat\<close>, compared without
  regard to case (the \<^verbatim>\<open>i\<close> flag of a regular expression), the rest of \<open>s\<close>.
\<close>

fun match_ci :: "string \<Rightarrow> string \<Rightarrow> string option" where
  "match_ci [] s = Some s"
| "match_ci (p # ps) [] = None"
| "match_ci (p # ps) (c # cs) = (if toLowerChar c = p then match_ci ps cs else None)"

text \<open>One match of \<^verbatim>\<open>/whatsapp:[ ]*/i\<close> at the start of the string: what follows the match.\<close>

definition match_whatsapp :: "string \<Rightarrow> string option" where
  "match_whatsapp s = map_option (dropWhile (\<lambda>c. c = CHR '' '')) (match_ci ''whatsapp:'' s)"


text \<open>\<^verbatim>\<open>s.replace(/whatsapp:[ ]*/ig, '')\<close>: every match is removed, scanning from the left.\<close>

function replace_all_whatsapp :: "string \<Rightarrow> string" where
  "replace_all_whatsapp [] = []"
| "replace_all_whatsapp (c # cs) =
     (case match_whatsapp (c # cs) of
        Some rest \<Rightarrow> replace_all_whatsapp rest
      | None \<Rightarrow> c # replace_all_whatsapp cs)"
  by pat_completeness auto
termination
proof (relation "measure length")
  fix c cs rest
  assume m: "match_whatsapp (c # cs) = Some rest"
  then obtain r0 where r0: "match_ci ''whatsapp:'' (c # cs) = Some r0"
    and r: "rest = dropWhile (\<lambda>c. c = CHR '' '') r0"
    by (auto simp: match_whatsapp_def)
  have "\<And>pat s r. match_ci pat s = Some r \<Longrightarrow> length r + length pat = length s"
  proof -
    fix pat s r
    show "match_ci pat s = Some r \<Longrightarrow> length r + length pat = length s"
      by (induction pat s rule: match_ci.induct) (auto split: if_splits)
  qed
  from this [OF r0] have "length r0 < length (c # cs)" by simp
  moreover have "length rest \<le> length r0"
    unfolding r by (rule length_dropWhile_le)
  ultimately show "(rest, c # cs) \<in> measure length" by simp
qed simp_all

text \<open>\<^verbatim>\<open>normalizeUserId(userId, includePrefix = true)\<close> of utils/userHelper.\<close>

definition normalizeUserId :: "string option \<Rightarrow> bool \<Rightarrow> string" where
  "normalizeUserId userId includePrefix =
     (if \<not> truthy_str userId then (if includePrefix then ''whatsapp:+unknown'' else ''unknown'')
      else
        let cleanId = replace_all_whatsapp (the userId);
            cleanId = dropWhile (\<lambda>c. c = CHR ''+'') cleanId
        in if includePrefix then ''whatsapp:+'' @ cleanId else cleanId)"

section \<open>Sessions (utils/sessionManager.js)\<close>

datatype conv_state =
    LANGUAGE_SELECT | NAME_COLLECTION | MENU | AWAITING_REPORT | AWAITING_LOCATION
  | AWAITING_SUGGESTION_TEXT | AWAITING_JOIN | JOIN_TEAM_LINK_SENT

text \<open>A session document. Times are milliseconds since the epoch.\<close>

record session =
  user_id :: string
  current_state :: conv_state
  last_option :: "string option"
  language :: "string option"
  last_interaction :: int
  user_name :: "string option"
  last_description :: "string option"
  last_photo_url :: "string option"

definition Session_findOne :: "session list \<Rightarrow> string \<Rightarrow> session option" where
  "Session_findOne ss uid = find (\<lambda>s. user_id s = uid) ss"

text \<open>
  \<^verbatim>\<open>session.save()\<close>: the stored document of this user is replaced; a new document is
  appended to the collection.
\<close>

fun Session_save :: "session \<Rightarrow> session list \<Rightarrow> session list" where
  "Session_save s [] = [s]"
| "Session_save s (t # ts) = (if user_id t = user_id s then s # ts else t # Session_save s ts)"

definition conversationTimeout :: int where
  "conversationTimeout = 1 * 60 * 60 * 1000"

definition getUserSession :: "string \<Rightarrow> int \<Rightarrow> session list \<Rightarrow> session \<times> session list" where
  "getUserSession userId now ss =
     (case Session_findOne ss userId of
        None \<Rightarrow>
          (let s = \<lparr> user_id = userId, current_state = LANGUAGE_SELECT, last_option = None,
                     language = Some ''en'', last_interaction = now, user_name = None,
                     last_description = None, last_photo_url = None \<rparr>
           in (s, Session_save s ss))
      | Some s0 \<Rightarrow>
          (if now - last_interaction s0 > conversationTimeout then
             (let s = s0 \<lparr> current_state :=
                             (if truthy_str (user_name s0) then MENU else LANGUAGE_SELECT),
                           last_option := None, last_interaction := now \<rparr>
              in (s, Session_save s ss))
           else
             (let s = s0 \<lparr> last_interaction := now \<rparr> in (s, Session_save s ss))))"

text \<open>
  \<^verbatim>\<open>updateUserSession(session, newState, newLastOption, newLanguage)\<close>: the session object is
  mutated and saved; \<open>now\<close> is the value of \<^verbatim>\<open>new Date()\<close>.
\<close>

definition updateUserSession ::
  "session \<Rightarrow> conv_state \<Rightarrow> string option \<Rightarrow> string option \<Rightarrow> int \<Rightarrow> session list
     \<Rightarrow> session \<times> session list" where
  "updateUserSession s newState newLastOption newLanguage now ss =
     (let s1 = s \<lparr> current_state := newState, last_option := newLastOption \<rparr>;
          s2 = (if truthy_str newLanguage then s1 \<lparr> language := newLanguage \<rparr> else s1);
          s3 = s2 \<lparr> last_interaction := now \<rparr>
      in (s3, Session_save s3 ss))"

section \<open>Point in polygon\<close>

text \<open>
  A JavaScript number after \<^verbatim>\<open>parseFloat\<close>: \<open>None\<close> is NaN, \<open>Some r\<close> a finite number, with the
  arithmetic of doubles idealised as that of the reals. A ring vertex is the pair
  \<^verbatim>\<open>[lng, lat]\<close>.
\<close>

type_synonym jsnum = "real option"
type_synonym vertex = "jsnum \<times> jsnum"

definition ray_crosses :: "real \<Rightarrow> real \<Rightarrow> real \<Rightarrow> real \<Rightarrow> real \<Rightarrow> real \<Rightarrow> bool" where
  "ray_crosses x y xi yi xj yj =
     (((yi > y) \<noteq> (yj > y)) \<and> x < (xj - xi) * (y - yi) / (yj - yi) + xi)"

text \<open>The body of one iteration of the loop on the edge from vertex \<open>vj\<close> to vertex \<open>vi\<close>.\<close>

definition edge_step :: "real \<Rightarrow> real \<Rightarrow> vertex \<Rightarrow> vertex \<Rightarrow> bool \<Rightarrow> bool" where
  "edge_step x y vi vj inside =
     (if fst vi = None \<or> snd vi = None \<or> fst vj = None \<or> snd vj = None then inside
      else if ray_crosses x y (the (fst vi)) (the (snd vi)) (the (fst vj)) (the (snd vj))
           then \<not> inside else inside)"

text \<open>\<^verbatim>\<open>for (let i = 0, j = polygon.length - 1; i < polygon.length; j = i++)\<close>\<close>

function pip_loop :: "real \<Rightarrow> real \<Rightarrow> vertex list \<Rightarrow> nat \<Rightarrow> nat \<Rightarrow> bool \<Rightarrow> bool" where
  "pip_loop x y polygon i j inside =
     (if i < length polygon
      then pip_loop x y polygon (Suc i) i (edge_step x y (polygon ! i) (polygon ! j) inside)
      else inside)"
  by pat_completeness auto
termination
  by (relation "measure (\<lambda>(x, y, polygon, i, j, inside). length polygon - i)") auto

declare pip_loop.simps [simp del]

definition isPointInPolygon :: "vertex \<Rightarrow> vertex list \<Rightarrow> bool" where
  "isPointInPolygon point polygon =
     (if length polygon < 3 then False
      else if fst point = None \<or> snd point = None then False
      else pip_loop (the (fst point)) (the (snd point)) polygon 0 (length polygon - 1) False)"

section \<open>Divisions and the location cache\<close>

text \<open>
  A coordinate as a handler receives it: a string of a form or of the chat transport, a
  number of a JSON body, or nothing.
\<close>

datatype jsval = JUndefined | JNull | JNumber jsnum | JString string

definition truthy :: "jsval \<Rightarrow> bool" where
  "truthy v =
     (case v of
        JUndefined \<Rightarrow> False
      | JNull \<Rightarrow> False
      | JNumber n \<Rightarrow> (case n of None \<Rightarrow> False | Some r \<Rightarrow> r \<noteq> 0)
      | JString s \<Rightarrow> s \<noteq> [])"

definition js_of_string :: "string option \<Rightarrow> jsval" where
  "js_of_string v = (case v of None \<Rightarrow> JNull | Some s \<Rightarrow> JString s)"

text \<open>
  \<^verbatim>\<open>parseFloat\<close>: a number is returned as it is; the parser of strings is the parameter
  \<open>pf\<close> (a built-in of the language); \<^verbatim>\<open>undefined\<close> and \<^verbatim>\<open>null\<close> give NaN.
\<close>

definition parseFloat :: "(string \<Rightarrow> jsnum) \<Rightarrow> jsval \<Rightarrow> jsnum" where
  "parseFloat pf v =
     (case v of
        JUndefined \<Rightarrow> None
      | JNull \<Rightarrow> None
      | JNumber n \<Rightarrow> n
      | JString s \<Rightarrow> pf s)"

text \<open>
  \<^verbatim>\<open>x.toFixed(6)\<close>: the sign and the number of millionths nearest to the magnitude (the
  larger one on a tie); from \<open>10^21\<close> on, the number is printed in full.
\<close>

datatype fixed = Fixed bool int | Exponential real

definition toFixed6 :: "real \<Rightarrow> fixed" where
  "toFixed6 x =
     (if \<bar>x\<bar> \<ge> 10 ^ 21 then Exponential x
      else Fixed (x < 0) \<lfloor>\<bar>x\<bar> * 10 ^ 6 + 1 / 2\<rfloor>)"

type_synonym cache_key = "fixed \<times> fixed"

datatype cached = CachedDivision nat string | CachedOutside

record cache_entry =
  c_value :: cached
  c_expires :: int

text \<open>The cache of the node-cache library: an entry lives \<^verbatim>\<open>stdTTL\<close> seconds.\<close>

definition stdTTL :: int where
  "stdTTL = 86400"

definition nodecache_get ::
  "(cache_key \<Rightarrow> cache_entry option) \<Rightarrow> cache_key \<Rightarrow> int
     \<Rightarrow> cached option \<times> (cache_key \<Rightarrow> cache_entry option)" where
  "nodecache_get cache key now =
     (case cache key of
        None \<Rightarrow> (None, cache)
      | Some e \<Rightarrow>
          (if c_expires e < now then (None, cache (key := None))
           else (Some (c_value e), cache)))"

definition nodecache_set ::
  "(cache_key \<Rightarrow> cache_entry option) \<Rightarrow> cache_key \<Rightarrow> cached \<Rightarrow> int
     \<Rightarrow> (cache_key \<Rightarrow> cache_entry option)" where
  "nodecache_set cache key v now =
     cache (key \<mapsto> \<lparr> c_value = v, c_expires = now + stdTTL * 1000 \<rparr>)"

record officer =
  o_id :: "string option"
  o_name :: "string option"
  phone :: "string option"
  alternate_phone :: "string option"
  isActive :: bool

text \<open>
  A division document. \<open>boundaries\<close> is the list of rings of
  \<^verbatim>\<open>boundaries.coordinates\<close> (\<open>None\<close> when the field is missing); only the first
  ring is read.
\<close>

record division =
  d_id :: nat
  d_name :: string
  boundaries :: "vertex list list option"
  officers :: "officer list"

definition Division_findById :: "division list \<Rightarrow> nat \<Rightarrow> division option" where
  "Division_findById ds i = find (\<lambda>d. d_id d = i) ds"

text \<open>The loop over the divisions: the first one whose ring holds the point.\<close>

fun scan_divisions :: "vertex \<Rightarrow> division list \<Rightarrow> division option" where
  "scan_divisions pt [] = None"
| "scan_divisions pt (d # ds) =
     (case boundaries d of
        None \<Rightarrow> scan_divisions pt ds
      | Some rings \<Rightarrow>
          (case rings of
             [] \<Rightarrow> scan_divisions pt ds
           | polygon # _ \<Rightarrow>
               (if length polygon < 3 then scan_divisions pt ds
                else if isPointInPolygon pt polygon then Some d
                else scan_divisions pt ds)))"

text \<open>A division whose first ring has at least three vertices and holds the point.\<close>

definition division_contains :: "vertex \<Rightarrow> division \<Rightarrow> bool" where
  "division_contains pt d =
     (case boundaries d of
        None \<Rightarrow> False
      | Some rings \<Rightarrow>
          (case rings of
             [] \<Rightarrow> False
           | polygon # _ \<Rightarrow> 3 \<le> length polygon \<and> isPointInPolygon pt polygon))"

section \<open>Stored documents, messages and the state of the server\<close>

record location =
  latitude :: jsnum
  longitude :: jsnum
  address :: string

text \<open>
  An entry of \<^verbatim>\<open>divisionOfficersNotified\<close>; the message identifier of the provider and the
  delivery status are not kept.
\<close>

record contact =
  c_officer_id :: "string option"
  c_name :: "string option"
  c_phone :: string
  c_time :: int

record query =
  q_id :: nat
  q_user_id :: string
  q_user_name :: string
  query_type :: string
  description :: "string option"
  photo_url :: "string option"
  q_location :: "location option"
  status :: string
  q_division :: "nat option"
  divisionName :: "string option"
  divisionNotified :: bool
  divisionOfficersNotified :: "contact list"

record report_link =
  l_linkId :: string
  l_userId :: string
  l_reportType :: string
  l_createdAt :: int
  l_used :: bool
  l_usedAt :: "int option"

text \<open>
  The texts of utils/language are not part of the sources read here: a message is the
  description of how the handler builds it.
\<close>

datatype resolve_link = ResolveHtml nat | ResolvePath nat

datatype message =
    GetText string string "string list"
  | LanguagePrompt string
  | Joined message message
  | Literal string
  | OfficerAlert string string string "string option" "string option" resolve_link
  | ReportThanks string string

datatype event =
    TwilioCreate string message bool
  | QuerySaved query
  | EmailAttempt nat

text \<open>The notification of an officer, among the messages.\<close>

fun is_officer_alert :: "message \<Rightarrow> bool" where
  "is_officer_alert (OfficerAlert dn ty loc de rp lk) = True"
| "is_officer_alert m = False"

text \<open>The kind of an effect, for reading a trace.\<close>

definition event_kind :: "event \<Rightarrow> string" where
  "event_kind ev =
     (case ev of
        QuerySaved q \<Rightarrow> ''save''
      | TwilioCreate to m ok \<Rightarrow> (if is_officer_alert m then ''officer alert'' else ''reply'')
      | EmailAttempt i \<Rightarrow> ''email'')"

text \<open>
  The state of the server: the collections, the location cache, the number of calls of
  \<^verbatim>\<open>Division.find()\<close>, and the effects so far in the order they happened.
\<close>

record world =
  sessions :: "session list"
  queries :: "query list"
  reportLinks :: "report_link list"
  divisions :: "division list"
  locationCache :: "cache_key \<Rightarrow> cache_entry option"
  division_find_calls :: nat
  events :: "event list"

text \<open>
  What the handlers take from outside: the parser of decimal strings, whether the
  messaging provider accepts a message and the text of the error it throws when it does
  not, the capture and join links of utils/deeplink (\<open>None\<close> when the call throws), and
  the image upload (\<open>None\<close> when it throws). The connection to the database does not
  fail: the \<^verbatim>\<open>catch\<close> blocks that only a lost connection can reach are not modelled.
\<close>

record env =
  parseFloat_string :: "string \<Rightarrow> jsnum"
  twilio_accepts :: "string \<Rightarrow> message \<Rightarrow> bool"
  twilio_error :: "string \<Rightarrow> message \<Rightarrow> string"
  getCaptureUrl :: "string \<Rightarrow> string \<Rightarrow> string option"
  joinFormUrl :: "string \<Rightarrow> int \<Rightarrow> string"
  uploadImageToR2 :: "string \<Rightarrow> string option"

section \<open>findDivisionForLocation\<close>

definition findDivisionForLocation ::
  "env \<Rightarrow> jsval \<Rightarrow> jsval \<Rightarrow> int \<Rightarrow> world \<Rightarrow> division option \<times> world" where
  "findDivisionForLocation e lat_in lng_in now w =
     (if \<not> (truthy lat_in \<and> truthy lng_in) then (None, w)
      else
        let lat = parseFloat (parseFloat_string e) lat_in;
            lng = parseFloat (parseFloat_string e) lng_in
        in if lat = None \<or> lng = None then (None, w)
           else
             let cacheKey = (toFixed6 (the lat), toFixed6 (the lng));
                 (cachedDivision, cache1) = nodecache_get (locationCache w) cacheKey now
             in case cachedDivision of
                  Some (CachedDivision i n) \<Rightarrow>
                    (Division_findById (divisions w) i, w \<lparr> locationCache := cache1 \<rparr>)
                | Some CachedOutside \<Rightarrow> (None, w \<lparr> locationCache := cache1 \<rparr>)
                | None \<Rightarrow>
                    (let w1 = w \<lparr> locationCache := cache1,
                                   division_find_calls := Suc (division_find_calls w) \<rparr>
                     in case scan_divisions (lng, lat) (divisions w) of
                          Some d \<Rightarrow>
                            (Some d,
                             w1 \<lparr> locationCache :=
                                    nodecache_set cache1 cacheKey
                                      (CachedDivision (d_id d) (d_name d)) now \<rparr>)
                        | None \<Rightarrow>
                            (None,
                             w1 \<lparr> locationCache :=
                                    nodecache_set cache1 cacheKey CachedOutside now \<rparr>)))"

text \<open>
  The cache key that \<open>findDivisionForLocation\<close> computes for a pair of coordinates;
  \<open>None\<close> when the input validation rejects the pair before a key is built.
\<close>

definition cacheKey_of :: "env \<Rightarrow> jsval \<Rightarrow> jsval \<Rightarrow> cache_key option" where
  "cacheKey_of e lat_in lng_in =
     (if truthy lat_in \<and> truthy lng_in then
        (case (parseFloat (parseFloat_string e) lat_in,
               parseFloat (parseFloat_string e) lng_in) of
           (Some lat, Some lng) \<Rightarrow> Some (toFixed6 lat, toFixed6 lng)
         | _ \<Rightarrow> None)
      else None)"

section \<open>The link validity check\<close>

definition ReportLink_matches :: "string \<Rightarrow> string \<Rightarrow> report_link \<Rightarrow> bool" where
  "ReportLink_matches lid cleanUserId l =
     (l_linkId l = lid \<and> (l_userId l = cleanUserId \<or> l_userId l = ''+'' @ cleanUserId))"




section \<open>Sending messages (utils/whatsapp.js)\<close>

text \<open>
  \<^verbatim>\<open>client.messages.create\<close>: the provider accepts the message or the call throws; the
  attempt is recorded with its outcome.
\<close>

definition client_messages_create :: "env \<Rightarrow> string \<Rightarrow> message \<Rightarrow> world \<Rightarrow> bool \<times> world" where
  "client_messages_create e to body w =
     (let ok = twilio_accepts e to body
      in (ok, w \<lparr> events := events w @ [TwilioCreate to body ok] \<rparr>))"

text \<open>\<^verbatim>\<open>sendWhatsAppMessage(to, body)\<close>: \<open>False\<close> when it throws.\<close>

definition sendWhatsAppMessage :: "env \<Rightarrow> string option \<Rightarrow> message \<Rightarrow> world \<Rightarrow> bool \<times> world" where
  "sendWhatsAppMessage e to body w =
     (if \<not> truthy_str to then (False, w)
      else client_messages_create e (normalizeUserId to True) body w)"

text \<open>
  The \<^verbatim>\<open>message\<close> of the error that \<^verbatim>\<open>sendWhatsAppMessage(to, body)\<close> throws when it
  throws: its own for a missing recipient, otherwise the one of the provider, rethrown.
\<close>

definition sendWhatsAppMessage_error :: "env \<Rightarrow> string option \<Rightarrow> message \<Rightarrow> string" where
  "sendWhatsAppMessage_error e to body =
     (if \<not> truthy_str to then ''Invalid recipient''
      else twilio_error e (normalizeUserId to True) body)"

fun starts_with :: "string \<Rightarrow> string \<Rightarrow> bool" where
  "starts_with [] s = True"
| "starts_with (p # ps) [] = False"
| "starts_with (p # ps) (c # cs) = (p = c \<and> starts_with ps cs)"

fun contains_str :: "string \<Rightarrow> string \<Rightarrow> bool" where
  "contains_str [] pat = (pat = [])"
| "contains_str (c # cs) pat = (if starts_with pat (c # cs) then True else contains_str cs pat)"

text \<open>\<^verbatim>\<open>s.replace(pat, '')\<close> with a string pattern: the first occurrence is removed.\<close>

fun remove_first :: "string \<Rightarrow> string \<Rightarrow> string" where
  "remove_first pat [] = []"
| "remove_first pat (c # cs) =
     (if starts_with pat (c # cs) then drop (length pat) (c # cs) else c # remove_first pat cs)"

definition is_digit :: "char \<Rightarrow> bool" where
  "is_digit c = (c \<in> set ''0123456789'')"

text \<open>\<^verbatim>\<open>formatPhoneNumber(phone)\<close>, called on a non-empty phone.\<close>

definition formatPhoneNumber :: "string \<Rightarrow> string" where
  "formatPhoneNumber ph =
     (let cleaned = filter is_digit ph;
          cleaned = dropWhile (\<lambda>c. c = CHR ''0'') cleaned;
          cleaned = (if \<not> starts_with ''91'' cleaned \<and> length cleaned = 10
                     then ''91'' @ cleaned else cleaned)
      in if \<not> starts_with ''whatsapp:'' ph then ''whatsapp:+'' @ cleaned else ph)"

text \<open>
  The table of the report types, looked up with the keys of the table itself: a report
  type that is the name of a member of \<^verbatim>\<open>Object.prototype\<close> (such as "constructor") is
  outside the model.
\<close>

definition reportTypes :: "string \<Rightarrow> string option" where
  "reportTypes =
     map_of [(''1'', ''Traffic Violation''), (''2'', ''Traffic Congestion''),
             (''3'', ''Irregularity''), (''4'', ''Road Damage''), (''5'', ''Illegal Parking''),
             (''6'', ''Traffic Signal Issue''), (''7'', ''Suggestion'')]"

text \<open>\<^verbatim>\<open>reportTypes[reportType] || 'Report'\<close>\<close>

definition getReportTypeText :: "string option \<Rightarrow> string" where
  "getReportTypeText reportType =
     (case reportType of
        None \<Rightarrow> ''Report''
      | Some t \<Rightarrow> (case reportTypes t of None \<Rightarrow> ''Report'' | Some txt \<Rightarrow> txt))"

text \<open>The loop of \<^verbatim>\<open>notifyDivisionOfficers\<close>: the primary phone, then the alternate one.\<close>

fun notify_loop ::
  "env \<Rightarrow> message \<Rightarrow> int \<Rightarrow> officer list \<Rightarrow> contact list \<Rightarrow> world \<Rightarrow> contact list \<times> world" where
  "notify_loop e msg now [] notifiedContacts w = (notifiedContacts, w)"
| "notify_loop e msg now (off # rest) notifiedContacts w =
     (let (primary_ok, w1) =
            (if truthy_str (phone off)
             then client_messages_create e (formatPhoneNumber (the (phone off))) msg w
             else (False, w))
      in if primary_ok
         then notify_loop e msg now rest
                (notifiedContacts @
                   [\<lparr> c_officer_id = Some (or_else (o_id off) ''unknown''),
                      c_name = Some (or_else (o_name off) ''Unknown''),
                      c_phone = formatPhoneNumber (the (phone off)), c_time = now \<rparr>]) w1
         else if truthy_str (alternate_phone off) \<and> alternate_phone off \<noteq> phone off
         then (let (alt_ok, w2) =
                     client_messages_create e (formatPhoneNumber (the (alternate_phone off))) msg w1
               in notify_loop e msg now rest
                    (if alt_ok
                     then notifiedContacts @
                            [\<lparr> c_officer_id = Some (or_else (o_id off) ''unknown''),
                               c_name = Some (or_else (o_name off) ''Unknown''),
                               c_phone = formatPhoneNumber (the (alternate_phone off)),
                               c_time = now \<rparr>]
                     else notifiedContacts) w2)
         else notify_loop e msg now rest notifiedContacts w1)"

definition notifyDivisionOfficers ::
  "env \<Rightarrow> query \<Rightarrow> division \<Rightarrow> int \<Rightarrow> world \<Rightarrow> contact list \<times> world" where
  "notifyDivisionOfficers e q d now w =
     (if officers d = [] then ([], w)
      else
        let activeOfficers = take 2 (filter isActive (officers d))
        in if activeOfficers = [] then ([], w)
           else
             let queryTypeText =
                   (case reportTypes (query_type q) of None \<Rightarrow> query_type q | Some txt \<Rightarrow> txt);
                 reporterName = or_else (Some (q_user_name q)) ''Anonymous'';
                 locationText =
                   (case q_location q of
                      None \<Rightarrow> ''See map link''
                    | Some l \<Rightarrow> or_else (Some (address l)) ''See map link'');
                 notificationMessage =
                   OfficerAlert (d_name d) queryTypeText locationText (description q)
                     (Some reporterName) (ResolveHtml (q_id q))
             in notify_loop e notificationMessage now activeOfficers [] w)"

section \<open>The query collection\<close>

text \<open>The identifier that \<^verbatim>\<open>new Query\<close> gives a document: one no stored query has.\<close>

definition fresh_query_id :: "query list \<Rightarrow> nat" where
  "fresh_query_id qs = Suc (fold max (map q_id qs) 0)"

definition Query_save :: "query \<Rightarrow> world \<Rightarrow> world" where
  "Query_save q w = w \<lparr> queries := queries w @ [q], events := events w @ [QuerySaved q] \<rparr>"

fun update_first :: "('a \<Rightarrow> bool) \<Rightarrow> ('a \<Rightarrow> 'a) \<Rightarrow> 'a list \<Rightarrow> 'a list" where
  "update_first P f [] = []"
| "update_first P f (x # xs) = (if P x then f x # xs else x # update_first P f xs)"

text \<open>
  \<^verbatim>\<open>Query.findByIdAndUpdate(id, {divisionNotified: true, divisionOfficersNotified})\<close>
\<close>

definition Query_markNotified :: "nat \<Rightarrow> contact list \<Rightarrow> world \<Rightarrow> world" where
  "Query_markNotified i notifiedContacts w =
     w \<lparr> queries :=
           update_first (\<lambda>q. q_id q = i)
             (\<lambda>q. q \<lparr> divisionNotified := True, divisionOfficersNotified := notifiedContacts \<rparr>)
             (queries w) \<rparr>"

text \<open>
  \<^verbatim>\<open>Session.findOne({ user_id: { $regex: digits } })\<close>, for an identifier of digits, where
  the pattern matches as a substring: the first session whose identifier contains them;
  then the stored name or "Anonymous". An identifier with characters that are special in
  a pattern is outside the model.
\<close>

definition lookup_user_name :: "string \<Rightarrow> world \<Rightarrow> string" where
  "lookup_user_name cleanUserId w =
     (case find (\<lambda>s. contains_str (user_id s) (remove_first ''whatsapp:+'' cleanUserId))
             (sessions w) of
        None \<Rightarrow> ''Anonymous''
      | Some s \<Rightarrow> or_else (user_name s) ''Anonymous'')"

section \<open>The webhook of the chat transport\<close>

record webhook_request =
  Body :: "string option"
  From :: "string option"
  Latitude :: "string option"
  Longitude :: "string option"
  Address :: "string option"

text \<open>The empty acknowledgement envelope.\<close>

definition twiml_empty :: string where
  \<open>twiml_empty = ''<?xml version="1.0" encoding="UTF-8"?><Response></Response>''\<close>

definition getMainMenu :: "string \<Rightarrow> message" where
  "getMainMenu lang = GetText ''WELCOME_MESSAGE'' lang []"

text \<open>
  The end of the handler: the session is updated, the reply is sent and the transport is
  answered with 200; when sending the reply throws, the \<^verbatim>\<open>catch\<close> answers with 500.
\<close>

definition respond ::
  "env \<Rightarrow> session \<Rightarrow> conv_state \<Rightarrow> string option \<Rightarrow> string option \<Rightarrow> string \<Rightarrow> message
     \<Rightarrow> int \<Rightarrow> world \<Rightarrow> (nat \<times> string) \<times> world" where
  "respond e userSession newState newLastOption newLanguage userNumber responseMessage now w =
     (let (s1, ss1) =
            updateUserSession userSession newState newLastOption newLanguage now (sessions w);
          (ok, w1) = client_messages_create e userNumber responseMessage (w \<lparr> sessions := ss1 \<rparr>)
      in ((if ok then 200 else 500, twiml_empty), w1))"

text \<open>State \<^verbatim>\<open>LANGUAGE_SELECT\<close>: the reply, the new state and the new language.\<close>

definition language_select :: "session \<Rightarrow> string \<Rightarrow> string \<Rightarrow> message \<times> conv_state \<times> string" where
  "language_select userSession userMessage userLanguage =
     (if userMessage = ''1'' then
        (if truthy_str (user_name userSession)
         then (Joined (GetText ''NAME_CONFIRMATION'' ''en'' [the (user_name userSession)])
                 (getMainMenu ''en''), MENU, ''en'')
         else (GetText ''NAME_REQUEST'' ''en'' [], NAME_COLLECTION, ''en''))
      else if userMessage = ''2'' then
        (if truthy_str (user_name userSession)
         then (Joined (GetText ''NAME_CONFIRMATION'' ''mr'' [the (user_name userSession)])
                 (getMainMenu ''mr''), MENU, ''mr'')
         else (GetText ''NAME_REQUEST'' ''mr'' [], NAME_COLLECTION, ''mr''))
      else (LanguagePrompt userLanguage, current_state userSession, userLanguage))"

text \<open>
  State \<^verbatim>\<open>MENU\<close>: the reply, the new state and the new last option. The camera
  instructions are built from the capture link and the language, which stand for them.
\<close>

definition menu_select ::
  "env \<Rightarrow> string \<Rightarrow> string \<Rightarrow> string \<Rightarrow> conv_state \<Rightarrow> string option \<Rightarrow> int
     \<Rightarrow> message \<times> conv_state \<times> string option" where
  "menu_select e userNumber userMessage userLanguage currentState lastOption now =
     (if userMessage \<in> set [''1'', ''2'', ''3'', ''4'', ''5'', ''6'', ''7'']
      then (case getCaptureUrl e userNumber userMessage of
              Some captureUrl \<Rightarrow>
                (GetText ''CAMERA_INSTRUCTIONS'' userLanguage [captureUrl, userLanguage],
                 AWAITING_REPORT, Some userMessage)
            | None \<Rightarrow>
                (Literal ''We're experiencing technical difficulties. Please try again later.'',
                 currentState, lastOption))
      else if userMessage = ''8''
      then (GetText ''JOIN_FORM_LINK'' userLanguage [joinFormUrl e userNumber now],
            JOIN_TEAM_LINK_SENT, Some ''8'')
      else (getMainMenu userLanguage, currentState, lastOption))"

text \<open>The \<^verbatim>\<open>switch (lastOption)\<close> of state \<^verbatim>\<open>AWAITING_LOCATION\<close>.\<close>

definition reportType_of_option :: "string option \<Rightarrow> string" where
  "reportType_of_option lastOption =
     (case lastOption of
        None \<Rightarrow> ''General Report''
      | Some t \<Rightarrow> (case reportTypes t of None \<Rightarrow> ''General Report'' | Some txt \<Rightarrow> txt))"

text \<open>The loop over the officers to notify, of state \<^verbatim>\<open>AWAITING_LOCATION\<close>.\<close>

fun notify_officers_chat ::
  "env \<Rightarrow> message \<Rightarrow> int \<Rightarrow> officer list \<Rightarrow> contact list \<Rightarrow> world \<Rightarrow> contact list \<times> world" where
  "notify_officers_chat e msg now [] notifiedOfficers w = (notifiedOfficers, w)"
| "notify_officers_chat e msg now (off # rest) notifiedOfficers w =
     (let (ok, w1) = sendWhatsAppMessage e (phone off) msg w
      in notify_officers_chat e msg now rest
           (if ok
            then notifiedOfficers @
                   [\<lparr> c_officer_id = None, c_name = None, c_phone = the (phone off),
                      c_time = now \<rparr>]
            else notifiedOfficers) w1)"

text \<open>The second loop: the notification with the final link, failures ignored.\<close>

fun resend_updated :: "env \<Rightarrow> message \<Rightarrow> contact list \<Rightarrow> world \<Rightarrow> world" where
  "resend_updated e msg [] w = w"
| "resend_updated e msg (c # cs) w =
     resend_updated e msg cs (snd (sendWhatsAppMessage e (Some (c_phone c)) msg w))"

definition awaiting_location ::
  "env \<Rightarrow> session \<Rightarrow> string \<Rightarrow> string option \<Rightarrow> string option \<Rightarrow> string option
     \<Rightarrow> string option \<Rightarrow> string \<Rightarrow> int \<Rightarrow> world \<Rightarrow> (nat \<times> string) \<times> world" where
  "awaiting_location e userSession userNumber lat lng locationAddress lastOption userLanguage
       now w =
     (if truthy_str lat \<and> truthy_str lng then
        (let (matchingDivision, w1) =
               findDivisionForLocation e (js_of_string lat) (js_of_string lng) now w
         in case matchingDivision of
              None \<Rightarrow>
                respond e userSession MENU None (Some userLanguage) userNumber
                  (GetText ''LOCATION_OUTSIDE_JURISDICTION'' userLanguage []) now w1
            | Some d \<Rightarrow>
                (let reportType = reportType_of_option lastOption;
                     descr = or_else (last_description userSession) ''No description provided'';
                     photoUrl = or_null (last_photo_url userSession);
                     newQuery =
                       \<lparr> q_id = fresh_query_id (queries w1), q_user_id = userNumber,
                         q_user_name = or_else (user_name userSession) ''Anonymous'',
                         query_type = reportType, description = Some descr,
                         photo_url = photoUrl,
                         q_location =
                           Some \<lparr> latitude = parseFloat (parseFloat_string e) (js_of_string lat),
                                  longitude = parseFloat (parseFloat_string e) (js_of_string lng),
                                  address = or_else locationAddress (the lat @ '', '' @ the lng) \<rparr>,
                         status = ''Pending'', q_division = Some (d_id d),
                         divisionName = Some (d_name d), divisionNotified = False,
                         divisionOfficersNotified = [] \<rparr>;
                     officersToNotify = take 2 (filter isActive (officers d));
                     notificationMessage =
                       OfficerAlert (d_name d) reportType
                         (or_else locationAddress ''See map link'') (Some descr) None
                         (ResolveHtml (q_id newQuery));
                     (notifiedOfficers, w2) =
                       notify_officers_chat e notificationMessage now officersToNotify [] w1
                 in if notifiedOfficers = [] then
                      respond e userSession MENU None (Some userLanguage) userNumber
                        (GetText ''NOTIFICATION_FAILED'' userLanguage []) now w2
                    else
                      (let saved = newQuery \<lparr> divisionNotified := True,
                                              divisionOfficersNotified := notifiedOfficers \<rparr>;
                           w3 = Query_save saved w2;
                           w4 = resend_updated e
                                  (OfficerAlert (d_name d) reportType
                                     (or_else locationAddress ''See map link'') (Some descr) None
                                     (ResolvePath (q_id saved)))
                                  notifiedOfficers w3;
                           w5 = w4 \<lparr> events := events w4 @ [EmailAttempt (q_id saved)] \<rparr>;
                           s1 = userSession \<lparr> last_description := None, last_photo_url := None \<rparr>;
                           w6 = w5 \<lparr> sessions := Session_save s1 (sessions w5) \<rparr>
                       in respond e s1 MENU None (Some userLanguage) userNumber
                            (GetText ''REPORT_RESPONSE'' userLanguage
                               [reportType, if truthy_str photoUrl then ''true'' else ''false''])
                            now w6)))
      else
        respond e userSession AWAITING_LOCATION lastOption (Some userLanguage) userNumber
          (GetText ''LOCATION_MISSING_HINT'' userLanguage []) now w)"

text \<open>
  \<^verbatim>\<open>POST /webhook\<close>: the status and the body of the response, and the new state of the
  server. The media of the message is downloaded and uploaded, but its address is not
  used by the handler; the contact fields read from the text of a join request are not
  kept in the model of a query.
\<close>

definition webhook ::
  "env \<Rightarrow> webhook_request \<Rightarrow> int \<Rightarrow> world \<Rightarrow> (nat \<times> string) \<times> world" where
  "webhook e req now w =
     (let userMessage = or_else (Body req) [];
          userNumber = or_else (From req) [];
          lat = or_null (Latitude req);
          lng = or_null (Longitude req);
          locationAddress = or_null (Address req);
          (userSession, ss1) = getUserSession userNumber now (sessions w);
          w1 = w \<lparr> sessions := ss1 \<rparr>;
          currentState = current_state userSession;
          lastOption = last_option userSession;
          userLanguage = or_else (language userSession) ''en''
      in if toLowerCase userMessage = ''reset'' then
           respond e userSession LANGUAGE_SELECT None (Some userLanguage) userNumber
             (LanguagePrompt ''en'') now w1
         else if currentState = LANGUAGE_SELECT then
           (let (responseMessage, newState, newLanguage) =
                  language_select userSession userMessage userLanguage
            in respond e userSession newState lastOption (Some newLanguage) userNumber
                 responseMessage now w1)
         else if currentState = NAME_COLLECTION then
           (let s1 = userSession \<lparr> user_name := Some userMessage \<rparr>;
                w2 = w1 \<lparr> sessions := Session_save s1 (sessions w1) \<rparr>
            in respond e s1 MENU lastOption (Some userLanguage) userNumber
                 (Joined (GetText ''NAME_CONFIRMATION'' userLanguage [userMessage])
                    (getMainMenu userLanguage)) now w2)
         else if toLowerCase userMessage = ''menu'' then
           respond e userSession MENU None (Some userLanguage) userNumber
             (getMainMenu userLanguage) now w1
         else if currentState = MENU then
           (let (responseMessage, newState, newLastOption) =
                  menu_select e userNumber userMessage userLanguage currentState lastOption now
            in respond e userSession newState newLastOption (Some userLanguage) userNumber
                 responseMessage now w1)
         else if currentState = AWAITING_REPORT then
           respond e userSession MENU None (Some userLanguage) userNumber
             (getMainMenu userLanguage) now w1
         else if currentState = AWAITING_SUGGESTION_TEXT then
           (let newQuery =
                  \<lparr> q_id = fresh_query_id (queries w1), q_user_id = userNumber,
                    q_user_name = or_else (user_name userSession) ''Anonymous'',
                    query_type = ''Suggestion'', description = Some userMessage,
                    photo_url = None, q_location = None, status = ''Pending'',
                    q_division = None, divisionName = None, divisionNotified = False,
                    divisionOfficersNotified = [] \<rparr>;
                w2 = Query_save newQuery w1
            in respond e userSession MENU None (Some userLanguage) userNumber
                 (GetText ''SUGGESTION_RESPONSE'' userLanguage []) now w2)
         else if currentState = AWAITING_LOCATION then
           awaiting_location e userSession userNumber lat lng locationAddress lastOption
             userLanguage now w1
         else if currentState = AWAITING_JOIN then
           (let joinQuery =
                  \<lparr> q_id = fresh_query_id (queries w1), q_user_id = userNumber,
                    q_user_name = or_else (user_name userSession) ''Anonymous'',
                    query_type = ''Join Request'', description = Some userMessage,
                    photo_url = None, q_location = None, status = ''Pending'',
                    q_division = None, divisionName = None, divisionNotified = False,
                    divisionOfficersNotified = [] \<rparr>;
                w2 = Query_save joinQuery w1;
                w3 = w2 \<lparr> events := events w2 @ [EmailAttempt (q_id joinQuery)] \<rparr>
            in respond e userSession MENU None (Some userLanguage) userNumber
                 (GetText ''JOIN_RESPONSE'' userLanguage []) now w3)
         else
           respond e userSession MENU None (Some userLanguage) userNumber
             (getMainMenu userLanguage) now w1)"

section \<open>The report endpoint of the capture page\<close>

datatype proc_result = ProcSuccess nat string | ProcOutside | ProcError

text \<open>The \<^verbatim>\<open>catch\<close> of the two processing functions: the user is told, failures ignored.\<close>

definition report_failure :: "env \<Rightarrow> string option \<Rightarrow> world \<Rightarrow> proc_result \<times> world" where
  "report_failure e userId w =
     (ProcError,
      snd (sendWhatsAppMessage e (Some (normalizeUserId userId True))
             (GetText ''REPORT_ERROR'' ''en'' []) w))"

text \<open>
  After a query is saved: the confirmation to the user, then the officers of the division,
  then the notification status of the stored query.
\<close>

definition confirm_and_notify ::
  "env \<Rightarrow> string option \<Rightarrow> query \<Rightarrow> division option \<Rightarrow> string \<Rightarrow> int \<Rightarrow> world
     \<Rightarrow> proc_result \<times> world" where
  "confirm_and_notify e userId q dv divName now w =
     (let (ok, w1) =
            sendWhatsAppMessage e (Some (normalizeUserId userId True))
              (ReportThanks (query_type q) divName) w
      in if \<not> ok then report_failure e userId w1
         else
           (case dv of
              None \<Rightarrow> (ProcSuccess (q_id q) divName, w1)
            | Some d \<Rightarrow>
                (let (notifiedContacts, w2) = notifyDivisionOfficers e q d now w1
                 in (ProcSuccess (q_id q) divName,
                     if notifiedContacts = [] then w2
                     else Query_markNotified (q_id q) notifiedContacts w2))))"

text \<open>
  \<^verbatim>\<open>processReportWithoutImage\<close>. The coordinates of the document are numbers: when one of
  them is NaN, which needs a call where a coordinate is missing, empty or the number 0,
  so that the lookup of the division is skipped, \<^verbatim>\<open>newQuery.save()\<close> throws and the
  \<^verbatim>\<open>catch\<close> tells the user. The endpoint calls the function only after its own lookup
  has given a division.
\<close>

definition processReportWithoutImage ::
  "env \<Rightarrow> jsval \<Rightarrow> jsval \<Rightarrow> string option \<Rightarrow> string option \<Rightarrow> string option \<Rightarrow> string option
     \<Rightarrow> int \<Rightarrow> world \<Rightarrow> proc_result \<times> world" where
  "processReportWithoutImage e lat lng descr userId reportType addr now w =
     (let cleanUserId = normalizeUserId userId True;
          queryTypeText = getReportTypeText reportType;
          (dv, w1) = (if truthy lat \<and> truthy lng
                      then findDivisionForLocation e lat lng now w
                      else (None, w))
      in if truthy lat \<and> truthy lng \<and> dv = None then
           (let (ok, w2) =
                  sendWhatsAppMessage e (Some cleanUserId)
                    (GetText ''LOCATION_OUTSIDE_JURISDICTION'' ''en'' []) w1
            in if ok then (ProcOutside, w2) else report_failure e userId w2)
         else
           (let divName = (case dv of None \<Rightarrow> ''Unknown'' | Some d \<Rightarrow> d_name d);
                newQuery =
                  \<lparr> q_id = fresh_query_id (queries w1), q_user_id = cleanUserId,
                    q_user_name = lookup_user_name cleanUserId w1,
                    query_type = queryTypeText, description = descr, photo_url = None,
                    q_location =
                      Some \<lparr> latitude = parseFloat (parseFloat_string e) lat,
                             longitude = parseFloat (parseFloat_string e) lng,
                             address = or_else addr ''Unknown location'' \<rparr>,
                    status = ''Pending'', q_division = map_option d_id dv,
                    divisionName = Some divName, divisionNotified = False,
                    divisionOfficersNotified = [] \<rparr>
            in if parseFloat (parseFloat_string e) lat = None \<or>
                  parseFloat (parseFloat_string e) lng = None
               then report_failure e userId w1
               else confirm_and_notify e userId newQuery dv divName now
                      (Query_save newQuery w1)))"

definition processReportInBackground ::
  "env \<Rightarrow> string \<Rightarrow> jsval \<Rightarrow> jsval \<Rightarrow> string option \<Rightarrow> string option \<Rightarrow> string option
     \<Rightarrow> string option \<Rightarrow> int \<Rightarrow> world \<Rightarrow> proc_result \<times> world" where
  "processReportInBackground e file lat lng descr userId reportType addr now w =
     (let cleanUserId = normalizeUserId userId True;
          (matchingDivision, w1) = findDivisionForLocation e lat lng now w
      in case matchingDivision of
           None \<Rightarrow>
             (let (ok, w2) =
                    sendWhatsAppMessage e (Some cleanUserId)
                      (GetText ''LOCATION_OUTSIDE_JURISDICTION'' ''en'' []) w1
              in if ok then (ProcOutside, w2) else report_failure e userId w2)
         | Some d \<Rightarrow>
             (let uploadedUrl = uploadImageToR2 e file;
                  newQuery =
                    \<lparr> q_id = fresh_query_id (queries w1), q_user_id = cleanUserId,
                      q_user_name = lookup_user_name cleanUserId w1,
                      query_type = getReportTypeText reportType,
                      description = Some (or_else descr ''No description provided''),
                      photo_url = uploadedUrl,
                      q_location =
                        Some \<lparr> latitude = parseFloat (parseFloat_string e) lat,
                               longitude = parseFloat (parseFloat_string e) lng,
                               address = or_else addr ''Unknown location'' \<rparr>,
                      status = ''Pending'', q_division = Some (d_id d),
                      divisionName = Some (d_name d), divisionNotified = False,
                      divisionOfficersNotified = [] \<rparr>
              in confirm_and_notify e userId newQuery (Some d) (d_name d) now
                   (Query_save newQuery w1)))"

record report_request =
  r_userId :: "string option"
  r_reportType :: "string option"
  r_description :: "string option"
  r_latitude :: jsval
  r_longitude :: jsval
  r_address :: "string option"
  r_linkId :: "string option"
  r_file :: "string option"

text \<open>The response: the status and the fields of the JSON body that the handler sets.\<close>

record report_response =
  rr_status :: nat
  rr_success :: bool
  rr_error :: "string option"
  rr_divisionName :: "string option"

text \<open>
  \<^verbatim>\<open>ReportLink.findOneAndUpdate(filter, { $set: { used: true, usedAt: new Date() } })\<close>
\<close>

definition ReportLink_markUsed :: "string \<Rightarrow> string \<Rightarrow> int \<Rightarrow> report_link list \<Rightarrow> report_link list" where
  "ReportLink_markUsed lid cleanUserId now links =
     update_first (ReportLink_matches lid cleanUserId)
       (\<lambda>l. l \<lparr> l_used := True, l_usedAt := Some now \<rparr>) links"

definition report_endpoint ::
  "env \<Rightarrow> report_request \<Rightarrow> int \<Rightarrow> world \<Rightarrow> report_response \<times> world" where
  "report_endpoint e req now w =
     (if \<not> (truthy_str (r_userId req) \<and> truthy_str (r_reportType req)) then
        (\<lparr> rr_status = 400, rr_success = False, rr_error = Some ''Missing required fields'',
           rr_divisionName = None \<rparr>, w)
      else
        let cleanUserId = normalizeUserId (r_userId req) True;
            w1 = (if truthy_str (r_linkId req)
                  then w \<lparr> reportLinks :=
                             ReportLink_markUsed (the (r_linkId req))
                               (normalizeUserId (r_userId req) False) now (reportLinks w) \<rparr>
                  else w);
            (matchingDivision, w2) =
              findDivisionForLocation e (r_latitude req) (r_longitude req) now w1
        in case matchingDivision of
             None \<Rightarrow>
               (let (ok, w3) =
                      sendWhatsAppMessage e (Some cleanUserId)
                        (GetText ''LOCATION_OUTSIDE_JURISDICTION'' ''en'' []) w2
                in if ok then
                     (\<lparr> rr_status = 400, rr_success = False,
                        rr_error = Some ''Location outside jurisdiction'',
                        rr_divisionName = None \<rparr>, w3)
                   else
                     (\<lparr> rr_status = 500, rr_success = False,
                        rr_error =
                          Some (sendWhatsAppMessage_error e (Some cleanUserId)
                                  (GetText ''LOCATION_OUTSIDE_JURISDICTION'' ''en'' [])),
                        rr_divisionName = None \<rparr>,
                      snd (report_failure e (r_userId req) w3)))
           | Some d \<Rightarrow>
               (let (processingResult, w3) =
                      (case r_file req of
                         Some file \<Rightarrow>
                           processReportInBackground e file (r_latitude req) (r_longitude req)
                             (r_description req) (r_userId req) (r_reportType req)
                             (r_address req) now w2
                       | None \<Rightarrow>
                           processReportWithoutImage e (r_latitude req) (r_longitude req)
                             (r_description req) (r_userId req) (r_reportType req)
                             (r_address req) now w2)
                in (\<lparr> rr_status = 200, rr_success = True, rr_error = None,
                      rr_divisionName =
                        Some (case processingResult of
                                ProcSuccess i n \<Rightarrow> (if n = [] then ''Unknown'' else n)
                              | ProcOutside \<Rightarrow> ''Unknown''
                              | ProcError \<Rightarrow> ''Unknown'') \<rparr>, w3)))"

section \<open>What a request may store\<close>

text \<open>
  The notification that state \<^verbatim>\<open>AWAITING_LOCATION\<close> sends to the officers of a division:
  for the session of the sender, the address of the request, the division that the
  coordinates resolve to, and the queries stored so far.
\<close>

definition chat_notification :: "session \<Rightarrow> string option \<Rightarrow> division \<Rightarrow> query list \<Rightarrow> message" where
  "chat_notification us addr d qs =
     OfficerAlert (d_name d) (reportType_of_option (last_option us))
       (or_else (or_null addr) ''See map link'')
       (Some (or_else (last_description us) ''No description provided'')) None
       (ResolveHtml (fresh_query_id qs))"

text \<open>
  The outcome of a chat event with the coordinates \<open>lat\<close> and \<open>lng\<close>, from the state before
  to the state after: nothing is stored, or one query is stored, and when it has a
  location, the lookup of the coordinates in the state before gives a division, the query
  carries the identifier and the name of this division and the numbers of the
  coordinates, it is marked as notified with a list of notified officers, and an accepted
  notification of an officer precedes its save among the new effects.
\<close>

definition chat_outcome :: "env \<Rightarrow> jsval \<Rightarrow> jsval \<Rightarrow> int \<Rightarrow> world \<Rightarrow> world \<Rightarrow> bool" where
  "chat_outcome e lat lng now w w' =
     (queries w' = queries w \<or>
      (\<exists>q. queries w' = queries w @ [q] \<and>
         (q_location q = None \<or>
          (\<exists>d a. fst (findDivisionForLocation e lat lng now w) = Some d \<and>
             q_division q = Some (d_id d) \<and> divisionName q = Some (d_name d) \<and>
             q_location q =
               Some \<lparr> latitude = parseFloat (parseFloat_string e) lat,
                      longitude = parseFloat (parseFloat_string e) lng, address = a \<rparr>) \<and>
          divisionNotified q \<and> divisionOfficersNotified q \<noteq> [] \<and>
          (\<exists>pre to m. prefix (events w @ pre @ [QuerySaved q]) (events w') \<and>
             TwilioCreate to m True \<in> set pre \<and> is_officer_alert m))))"

text \<open>
  The outcome of one of the two processing functions of the capture page, called with the
  coordinates \<open>lat\<close> and \<open>lng\<close>: nothing is stored, or the lookup of the coordinates in the
  state before gives a division, one query with the identifier and the name of this
  division and the numbers of the coordinates is stored, and its save is the first new
  effect.
\<close>

definition web_outcome :: "env \<Rightarrow> jsval \<Rightarrow> jsval \<Rightarrow> int \<Rightarrow> world \<Rightarrow> world \<Rightarrow> bool" where
  "web_outcome e lat lng now w w' =
     (queries w' = queries w \<or>
      (\<exists>q q0 d a. queries w' = queries w @ [q] \<and>
         fst (findDivisionForLocation e lat lng now w) = Some d \<and>
         q_division q = Some (d_id d) \<and> divisionName q = Some (d_name d) \<and>
         q_location q =
           Some \<lparr> latitude = parseFloat (parseFloat_string e) lat,
                  longitude = parseFloat (parseFloat_string e) lng, address = a \<rparr> \<and>
         q_id q0 = q_id q \<and> prefix (events w @ [QuerySaved q0]) (events w')))"

text \<open>
  The outcome of a submission of the capture page. The endpoint looks the coordinates up,
  and the processing function looks them up again in the state that the first lookup
  leaves, where the cache answers with the identifier of the division of the first
  lookup: nothing is stored, or the lookup in the state before gives a division, and one
  query is stored with the identifier of this division, the name of the first stored
  division with this identifier and the numbers of the coordinates, and its save is the
  first new effect.
\<close>

definition endpoint_outcome :: "env \<Rightarrow> jsval \<Rightarrow> jsval \<Rightarrow> int \<Rightarrow> world \<Rightarrow> world \<Rightarrow> bool" where
  "endpoint_outcome e lat lng now w w' =
     (queries w' = queries w \<or>
      (\<exists>q q0 d0 d a. queries w' = queries w @ [q] \<and>
         fst (findDivisionForLocation e lat lng now w) = Some d0 \<and>
         Division_findById (divisions w) (d_id d0) = Some d \<and>
         q_division q = Some (d_id d0) \<and> divisionName q = Some (d_name d) \<and>
         q_location q =
           Some \<lparr> latitude = parseFloat (parseFloat_string e) lat,
                  longitude = parseFloat (parseFloat_string e) lng, address = a \<rparr> \<and>
         q_id q0 = q_id q \<and> prefix (events w @ [QuerySaved q0]) (events w')))"

section \<open>Example data\<close>

definition example_session :: session where
  "example_session =
     \<lparr> user_id = ''whatsapp:+919999999999'', current_state = AWAITING_LOCATION,
       last_option = Some ''1'', language = Some ''mr'', last_interaction = 0,
       user_name = Some ''Asha'', last_description = Some ''pothole'',
       last_photo_url = None \<rparr>"

definition example_link :: report_link where
  "example_link =
     \<lparr> l_linkId = ''k3x9'', l_userId = ''919999999999'', l_reportType = ''1'',
       l_createdAt = 1000000, l_used = False, l_usedAt = None \<rparr>"

text \<open>A square ring around the point with longitude 73.80 and latitude 18.62.\<close>

definition example_ring :: "vertex list" where
  "example_ring =
     [(Some 73.7, Some 18.6), (Some 73.9, Some 18.6), (Some 73.9, Some 18.7),
      (Some 73.7, Some 18.7)]"

text \<open>The values of \<^verbatim>\<open>parseFloat\<close> on the decimal strings of the examples.\<close>

definition example_parseFloat :: "string \<Rightarrow> jsnum" where
  "example_parseFloat =
     map_of [(''18.62'', 18.62), (''73.80'', 73.8), (''28.61'', 28.61), (''77.20'', 77.2),
             (''0'', 0), (''0.5'', 0.5)]"

text \<open>An environment where the messaging provider accepts every message, and one where
  it refuses every message.\<close>

definition example_env :: env where
  "example_env =
     \<lparr> parseFloat_string = example_parseFloat,
       twilio_accepts = (\<lambda>to body. True),
       twilio_error = (\<lambda>to body. ''Unable to create record''),
       getCaptureUrl = (\<lambda>userNumber reportType. Some ''https://example.org/r/k3x9''),
       joinFormUrl = (\<lambda>userNumber now. ''https://example.org/join-team.html''),
       uploadImageToR2 = (\<lambda>file. None) \<rparr>"

definition example_env_down :: env where
  "example_env_down = example_env \<lparr> twilio_accepts := (\<lambda>to body. False) \<rparr>"

text \<open>An environment where the provider refuses the notifications of officers only.\<close>

definition example_env_alerts_refused :: env where
  "example_env_alerts_refused =
     example_env \<lparr> twilio_accepts := (\<lambda>to body. \<not> is_officer_alert body) \<rparr>"

text \<open>Division D1 with the example ring and no officers, and the same with one officer.\<close>

definition example_division :: division where
  "example_division =
     \<lparr> d_id = 1, d_name = ''D1'', boundaries = Some [example_ring], officers = [] \<rparr>"

definition example_officer :: officer where
  "example_officer =
     \<lparr> o_id = Some ''o1'', o_name = Some ''Patil'', phone = Some ''+919812345678'',
       alternate_phone = None, isActive = True \<rparr>"

definition example_division_staffed :: division where
  "example_division_staffed = example_division \<lparr> officers := [example_officer] \<rparr>"

definition example_world :: world where
  "example_world =
     \<lparr> sessions = [example_session], queries = [], reportLinks = [example_link],
       divisions = [example_division], locationCache = (\<lambda>k. None),
       division_find_calls = 0, events = [] \<rparr>"

definition example_world_staffed :: world where
  "example_world_staffed = example_world \<lparr> divisions := [example_division_staffed] \<rparr>"

text \<open>A division on the equator: longitudes 0 to 1, latitudes -1 to 1.\<close>

definition equator_ring :: "vertex list" where
  "equator_ring = [(Some 0, Some (- 1)), (Some 1, Some (- 1)), (Some 1, Some 1), (Some 0, Some 1)]"

definition equator_division :: division where
  "equator_division =
     \<lparr> d_id = 7, d_name = ''Equator'', boundaries = Some [equator_ring], officers = [] \<rparr>"

definition equator_world :: world where
  "equator_world = example_world \<lparr> divisions := [equator_division] \<rparr>"

text \<open>A text message and a location message of the chat transport.\<close>

definition example_text :: "string \<Rightarrow> string \<Rightarrow> webhook_request" where
  "example_text sender txt =
     \<lparr> Body = Some txt, From = Some sender, Latitude = None, Longitude = None, Address = None \<rparr>"

definition example_location :: "string \<Rightarrow> string \<Rightarrow> string \<Rightarrow> webhook_request" where
  "example_location sender lat lng =
     \<lparr> Body = None, From = Some sender, Latitude = Some lat, Longitude = Some lng,
       Address = None \<rparr>"

text \<open>The example world with its one session waiting for the name of the user.\<close>

definition example_world_naming :: world where
  "example_world_naming =
     example_world
       \<lparr> sessions := [example_session \<lparr> current_state := NAME_COLLECTION, user_name := None \<rparr>] \<rparr>"

text \<open>A submission of the capture page for the example link, without image.\<close>

definition example_report :: "string \<Rightarrow> string \<Rightarrow> report_request" where
  "example_report lat lng =
     \<lparr> r_userId = Some ''whatsapp:+919999999999'', r_reportType = Some ''1'',
       r_description = Some ''Signal jumped'', r_latitude = JString lat,
       r_longitude = JString lng, r_address = None, r_linkId = Some ''k3x9'',
       r_file = None \<rparr>"

text \<open>
  The ring of predecessors: the vertex before each vertex of a ring, the last one before
  the first. The loop of \<open>isPointInPolygon\<close> visits the pairs of the two rings.
\<close>

definition prev_ring :: "'a list \<Rightarrow> 'a list" where
  "prev_ring p = (if p = [] then [] else last p # butlast p)"

section \<open>Properties of the session update\<close>

lemma updateUserSession_result:
  assumes "updateUserSession s newState newLastOption newLanguage now ss = (s', ss')"
  shows "current_state s' = newState \<and> last_option s' = newLastOption \<and>
         user_id s' = user_id s \<and> ss' = Session_save s' ss"
  using assms by (auto simp: updateUserSession_def Let_def)

text \<open>
  Claim C10. \<open>updateUserSession\<close> always overwrites the state, the last option and the time
  of the last interaction; it leaves the language as it is when the new language is absent
  or empty (and sets it otherwise); the user identifier, the user name and the draft
  fields are not touched; the session that is saved is the updated one.
\<close>

theorem updateUserSession_frame:
  assumes "updateUserSession s newState newLastOption newLanguage now ss = (s', ss')"
  shows "current_state s' = newState \<and> last_option s' = newLastOption \<and>
         last_interaction s' = now \<and>
         (\<not> truthy_str newLanguage \<longrightarrow> language s' = language s) \<and>
         (truthy_str newLanguage \<longrightarrow> language s' = newLanguage) \<and>
         user_id s' = user_id s \<and> user_name s' = user_name s \<and>
         last_description s' = last_description s \<and> last_photo_url s' = last_photo_url s \<and>
         session.more s' = session.more s \<and>
         ss' = Session_save s' ss"
  using assms by (auto simp: updateUserSession_def Let_def)

theorem updateUserSession_frame_witness:
  "language (fst (updateUserSession example_session MENU None None 5 [example_session]))
     = Some ''mr'' \<and>
   current_state (fst (updateUserSession example_session MENU None None 5 [example_session]))
     = MENU \<and>
   last_option (fst (updateUserSession example_session MENU None None 5 [example_session]))
     = None \<and>
   user_name (fst (updateUserSession example_session MENU None None 5 [example_session]))
     = Some ''Asha'' \<and>
   last_description (fst (updateUserSession example_session MENU None None 5 [example_session]))
     = Some ''pothole''"
  using updateUserSession_frame [of example_session MENU None None 5 "[example_session]"
      "fst (updateUserSession example_session MENU None None 5 [example_session])"
      "snd (updateUserSession example_session MENU None None 5 [example_session])"]
  by (simp add: truthy_str_def example_session_def)

section \<open>Properties of the link validity check\<close>





section \<open>Properties of the point-in-polygon test\<close>

text \<open>The loop from index \<open>i\<close> on folds the edge test over the remaining pairs.\<close>

lemma pip_loop_fold:
  "i \<le> length p \<Longrightarrow> (i = 0 \<longrightarrow> j = length p - 1) \<Longrightarrow> (0 < i \<longrightarrow> j = i - 1) \<Longrightarrow>
   pip_loop x y p i j b =
     fold (\<lambda>(vi, vj). edge_step x y vi vj) (drop i (zip p (prev_ring p))) b"
proof (induction x y p i j b rule: pip_loop.induct)
  case (1 x y polygon i j inside)
  show ?case
  proof (cases "i < length polygon")
    case False
    with 1 show ?thesis by (subst pip_loop.simps) (simp add: prev_ring_def)
  next
    case True
    have ne: "polygon \<noteq> []" using True by auto
    have len: "length (zip polygon (prev_ring polygon)) = length polygon"
      using ne by (simp add: prev_ring_def)
    have nthp: "prev_ring polygon ! i = polygon ! j"
    proof (cases i)
      case 0
      then show ?thesis using 1 ne by (simp add: prev_ring_def last_conv_nth)
    next
      case (Suc k)
      then show ?thesis using 1 ne True by (simp add: prev_ring_def nth_butlast)
    qed
    have d: "drop i (zip polygon (prev_ring polygon)) =
             (polygon ! i, polygon ! j) # drop (Suc i) (zip polygon (prev_ring polygon))"
      using True len nthp ne by (simp add: Cons_nth_drop_Suc [symmetric] prev_ring_def)
    have "pip_loop x y polygon i j inside =
          pip_loop x y polygon (Suc i) i (edge_step x y (polygon ! i) (polygon ! j) inside)"
      using True by (subst pip_loop.simps) simp
    also have "\<dots> = fold (\<lambda>(vi, vj). edge_step x y vi vj)
                      (drop (Suc i) (zip polygon (prev_ring polygon)))
                      (edge_step x y (polygon ! i) (polygon ! j) inside)"
      using 1(1) [OF True] True by simp
    finally show ?thesis using d by simp
  qed
qed

lemma rotate1_zip:
  "length xs = length ys \<Longrightarrow> rotate1 (zip xs ys) = zip (rotate1 xs) (rotate1 ys)"
  by (cases xs; cases ys) simp_all

lemma prev_ring_rotate1: "prev_ring (rotate1 p) = p"
  by (cases p) (simp_all add: prev_ring_def)

lemma rotate1_prev_ring: "rotate1 (prev_ring p) = p"
  by (cases p) (simp_all add: prev_ring_def)

lemma edges_rotate1: "zip (rotate1 p) (prev_ring (rotate1 p)) = rotate1 (zip p (prev_ring p))"
proof -
  have "length p = length (prev_ring p)" by (simp add: prev_ring_def)
  then show ?thesis by (simp add: rotate1_zip prev_ring_rotate1 rotate1_prev_ring)
qed

lemma edge_step_alt:
  "edge_step x y a b s = (if edge_step x y a b False then \<not> s else s)"
  by (simp add: edge_step_def)

lemma fold_edge_step_flip:
  "fold (\<lambda>(vi, vj). edge_step x y vi vj) es (\<not> s) =
   (\<not> fold (\<lambda>(vi, vj). edge_step x y vi vj) es s)"
proof (induction es arbitrary: s)
  case Nil
  show ?case by simp
next
  case (Cons e es)
  obtain vi vj where e: "e = (vi, vj)" by (cases e)
  have "edge_step x y vi vj (\<not> s) = (\<not> edge_step x y vi vj s)"
    by (simp add: edge_step_def)
  with Cons show ?case by (simp add: e)
qed

lemma fold_edge_step_out:
  "fold (\<lambda>(vi, vj). edge_step x y vi vj) es (edge_step x y a b s) =
   edge_step x y a b (fold (\<lambda>(vi, vj). edge_step x y vi vj) es s)"
proof (cases "edge_step x y a b False")
  case True
  have "\<And>t. edge_step x y a b t = (\<not> t)"
    by (subst edge_step_alt) (simp add: True)
  then show ?thesis by (simp add: fold_edge_step_flip)
next
  case False
  have "\<And>t. edge_step x y a b t = t"
    by (subst edge_step_alt) (simp add: False)
  then show ?thesis by simp
qed

lemma fold_edge_step_rotate1:
  "fold (\<lambda>(vi, vj). edge_step x y vi vj) (rotate1 es) s =
   fold (\<lambda>(vi, vj). edge_step x y vi vj) es s"
proof (cases es)
  case Nil
  then show ?thesis by simp
next
  case (Cons e es')
  obtain vi vj where e: "e = (vi, vj)" by (cases e)
  show ?thesis
    unfolding Cons e by (simp add: fold_edge_step_out)
qed

lemma isPointInPolygon_fold:
  "isPointInPolygon pt p =
     (if length p < 3 then False
      else if fst pt = None \<or> snd pt = None then False
      else fold (\<lambda>(vi, vj). edge_step (the (fst pt)) (the (snd pt)) vi vj)
             (zip p (prev_ring p)) False)"
  by (simp add: isPointInPolygon_def pip_loop_fold)

lemma isPointInPolygon_rotate1: "isPointInPolygon pt (rotate1 p) = isPointInPolygon pt p"
  by (simp add: isPointInPolygon_fold edges_rotate1 fold_edge_step_rotate1)

text \<open>
  Claim C9. For every point and every ring, \<open>isPointInPolygon\<close> gives the same answer on
  the ring and on the ring rotated cyclically by any number of places. This holds for
  the rings of at least three numeric vertices of the claim, and also for the others:
  an edge with a vertex that is not a number is skipped in both, and a ring of fewer than
  three vertices gives \<open>False\<close> in both.
\<close>

theorem isPointInPolygon_rotate: "isPointInPolygon pt (rotate k p) = isPointInPolygon pt p"
  by (induction k) (simp_all add: isPointInPolygon_rotate1)

text \<open>The test tells the inside of the example ring from its outside, in every rotation.\<close>

lemma isPointInPolygon_example:
  "isPointInPolygon (Some 73.8, Some 18.62) example_ring \<and>
   \<not> isPointInPolygon (Some 74, Some 18.62) example_ring \<and>
   isPointInPolygon (Some 73.8, Some 18.62) (rotate 3 example_ring)"
  by code_simp

section \<open>Properties of the division lookup\<close>

lemma scan_divisions_mem: "scan_divisions pt ds = Some d \<Longrightarrow> d \<in> set ds"
  by (induction ds) (auto split: option.splits list.splits if_splits)

text \<open>The loop returns the first division, in storage order, whose ring holds the point.\<close>

lemma scan_divisions_first_match: "scan_divisions pt ds = find (division_contains pt) ds"
  by (induction ds) (auto simp: division_contains_def split: option.splits list.splits)

lemma findById_distinct:
  "distinct (map d_id ds) \<Longrightarrow> d \<in> set ds \<Longrightarrow> Division_findById ds (d_id d) = Some d"
  unfolding Division_findById_def
  by (induction ds) (auto simp: rev_image_eqI)

lemma findDivision_hit:
  assumes "cacheKey_of e a b = Some k" and "locationCache w k = Some en" and "now \<le> c_expires en"
  shows "findDivisionForLocation e a b now w =
           ((case c_value en of CachedDivision i n \<Rightarrow> Division_findById (divisions w) i
             | CachedOutside \<Rightarrow> None), w)"
  using assms
  by (auto simp: findDivisionForLocation_def cacheKey_of_def nodecache_get_def Let_def
      split: option.splits cached.splits if_splits)

lemma findDivision_miss:
  assumes "cacheKey_of e a b = Some k"
    and "findDivisionForLocation e a b now w = (r, w')"
    and "\<not> (\<exists>en. locationCache w k = Some en \<and> now \<le> c_expires en)"
  shows "r = scan_divisions (parseFloat (parseFloat_string e) b, parseFloat (parseFloat_string e) a)
                 (divisions w) \<and>
           locationCache w' k =
             Some \<lparr> c_value = (case r of Some d \<Rightarrow> CachedDivision (d_id d) (d_name d)
                                | None \<Rightarrow> CachedOutside),
                    c_expires = now + stdTTL * 1000 \<rparr> \<and>
           divisions w' = divisions w \<and>
           division_find_calls w' = Suc (division_find_calls w)"
  using assms
  by (auto simp: findDivisionForLocation_def cacheKey_of_def nodecache_get_def nodecache_set_def
      Let_def split: option.splits if_splits)

lemma findDivision_leaves_entry:
  assumes key: "cacheKey_of e a b = Some k"
    and call: "findDivisionForLocation e a b now w = (r, w')"
    and ids: "distinct (map d_id (divisions w))"
  shows "\<exists>en. locationCache w' k = Some en \<and> now \<le> c_expires en \<and> divisions w' = divisions w \<and>
          r = (case c_value en of CachedDivision i n \<Rightarrow> Division_findById (divisions w) i
             | CachedOutside \<Rightarrow> None) \<and>
          (division_find_calls w' \<noteq> division_find_calls w \<longrightarrow>
             c_expires en = now + stdTTL * 1000)"
proof (cases "\<exists>en. locationCache w k = Some en \<and> now \<le> c_expires en")
  case True
  then obtain en where en: "locationCache w k = Some en" "now \<le> c_expires en" by blast
  from findDivision_hit [OF key en] call
  have "w' = w" and "r = (case c_value en of CachedDivision i n \<Rightarrow> Division_findById (divisions w) i
             | CachedOutside \<Rightarrow> None)" by simp_all
  with en show ?thesis by simp
next
  case False
  define pt where "pt = (parseFloat (parseFloat_string e) b, parseFloat (parseFloat_string e) a)"
  from findDivision_miss [OF key call False]
  have m: "r = scan_divisions pt (divisions w)"
    "locationCache w' k =
       Some \<lparr> c_value = (case r of Some d \<Rightarrow> CachedDivision (d_id d) (d_name d)
                          | None \<Rightarrow> CachedOutside),
              c_expires = now + stdTTL * 1000 \<rparr>"
    "divisions w' = divisions w"
    by (simp_all add: pt_def)
  show ?thesis
  proof (cases r)
    case None
    with m show ?thesis by (simp add: stdTTL_def)
  next
    case (Some d)
    with m(1) have "d \<in> set (divisions w)" by (simp add: scan_divisions_mem)
    with ids have "Division_findById (divisions w) (d_id d) = Some d" by (rule findById_distinct)
    with m(2,3) Some show ?thesis by (simp add: stdTTL_def)
  qed
qed

text \<open>
  Claim C4, as the code has it. Two consecutive calls whose coordinates pass the input
  validation and give the same cache key, on a collection of divisions with distinct
  identifiers: the first call leaves an entry for the key that has not expired at the
  time of the first call (when the first call scanned the divisions, the entry expires
  24 hours later), and when this entry has not expired at the time of the second call,
  the second call returns what the first returned, the division or nothing, and leaves
  the state as it is: \<^verbatim>\<open>Division.find()\<close> is not called again and no polygon is visited.
\<close>

theorem resolve_cache_idempotent:
  assumes "cacheKey_of e lat1 lng1 = Some k" and "cacheKey_of e lat2 lng2 = Some k"
    and "distinct (map d_id (divisions w0))"
    and "findDivisionForLocation e lat1 lng1 t1 w0 = (r1, w1)"
    and "findDivisionForLocation e lat2 lng2 t2 w1 = (r2, w2)"
  shows "\<exists>en. locationCache w1 k = Some en \<and> t1 \<le> c_expires en \<and>
           (division_find_calls w1 \<noteq> division_find_calls w0 \<longrightarrow>
              c_expires en = t1 + stdTTL * 1000) \<and>
           (t2 \<le> c_expires en \<longrightarrow>
              r2 = r1 \<and> division_find_calls w2 = division_find_calls w1 \<and> w2 = w1)"
proof -
  from findDivision_leaves_entry [OF assms(1) assms(4) assms(3)]
  obtain en where en: "locationCache w1 k = Some en" "t1 \<le> c_expires en"
    "divisions w1 = divisions w0"
    "r1 = (case c_value en of CachedDivision i n \<Rightarrow> Division_findById (divisions w0) i
             | CachedOutside \<Rightarrow> None)"
    "division_find_calls w1 \<noteq> division_find_calls w0 \<longrightarrow>
       c_expires en = t1 + stdTTL * 1000"
    by blast
  have "r2 = r1 \<and> division_find_calls w2 = division_find_calls w1 \<and> w2 = w1" if "t2 \<le> c_expires en"
    using findDivision_hit [OF assms(2) en(1) that] assms(5) en(3,4) by (simp split: cached.splits)
  with en show ?thesis by blast
qed


lemma example_key:
  "cacheKey_of example_env (JString ''18.62'') (JString ''73.80'') =
     Some (Fixed False 18620000, Fixed False 73800000)"
  "cacheKey_of example_env (JNumber (Some 18.6200001)) (JNumber (Some 73.8)) =
     Some (Fixed False 18620000, Fixed False 73800000)"
  by code_simp+

lemma example_first_call:
  "fst (findDivisionForLocation example_env (JString ''18.62'') (JString ''73.80'') 0 example_world)
     = Some example_division"
  "division_find_calls (snd (findDivisionForLocation example_env (JString ''18.62'') (JString ''73.80'') 0 example_world)) = 1"
  "locationCache (snd (findDivisionForLocation example_env (JString ''18.62'') (JString ''73.80'') 0 example_world)) (Fixed False 18620000, Fixed False 73800000) = Some \<lparr> c_value = CachedDivision 1 ''D1'', c_expires = 86400000 \<rparr>"
  by code_simp+

theorem resolve_cache_idempotent_witness:
  "fst (findDivisionForLocation example_env (JString ''18.62'') (JString ''73.80'') 0
          example_world) = Some example_division \<and>
   fst (findDivisionForLocation example_env (JNumber (Some 18.6200001)) (JNumber (Some 73.8)) 1000
          (snd (findDivisionForLocation example_env (JString ''18.62'') (JString ''73.80'') 0
                  example_world))) = Some example_division \<and>
   division_find_calls
     (snd (findDivisionForLocation example_env (JNumber (Some 18.6200001)) (JNumber (Some 73.8)) 1000
          (snd (findDivisionForLocation example_env (JString ''18.62'') (JString ''73.80'') 0
                  example_world)))) = 1"
proof -
  have d: "distinct (map d_id (divisions example_world))"
    by (simp add: example_world_def)
  show ?thesis
    using resolve_cache_idempotent [OF example_key d surjective_pairing surjective_pairing, of 0 1000]
      example_first_call
    by simp
qed

text \<open>
  The claim as stated fails: an entry of the cache lives 24 hours. A second call with the
  same key one millisecond after the entry of the first call has expired reads the
  divisions again, although it returns the same division.
\<close>

theorem resolve_after_expiry_counterexample:
  "cacheKey_of example_env (JString ''18.62'') (JString ''73.80'') =
     Some (Fixed False 18620000, Fixed False 73800000) \<and>
   cacheKey_of example_env (JNumber (Some 18.6200001)) (JNumber (Some 73.8)) =
     Some (Fixed False 18620000, Fixed False 73800000) \<and>
   division_find_calls
     (snd (findDivisionForLocation example_env (JString ''18.62'') (JString ''73.80'') 0
             example_world)) = 1 \<and>
   fst (findDivisionForLocation example_env (JNumber (Some 18.6200001)) (JNumber (Some 73.8))
          86400001
          (snd (findDivisionForLocation example_env (JString ''18.62'') (JString ''73.80'') 0
                  example_world))) = Some example_division \<and>
   division_find_calls
     (snd (findDivisionForLocation example_env (JNumber (Some 18.6200001)) (JNumber (Some 73.8))
             86400001
             (snd (findDivisionForLocation example_env (JString ''18.62'') (JString ''73.80'') 0
                     example_world)))) = 2"
  by code_simp

section \<open>The zero coordinate\<close>

lemma numeric_zero_rejected:
  "findDivisionForLocation e (JNumber (Some 0)) lng_in now w = (None, w)"
  "findDivisionForLocation e lat_in (JNumber (Some 0)) now w = (None, w)"
  by (simp_all add: findDivisionForLocation_def truthy_def)

text \<open>
  Claim C3. The claim says that only non-numeric coordinates are rejected, so that a point
  with latitude 0 inside a division resolves to it. The point with longitude 0.5 and
  latitude 0 is inside the ring of the equator division: the containment test says so, the
  loop over the divisions finds the division, and the lookup finds it when the coordinates
  come as the strings "0" and "0.5". With the latitude as the number 0 the validation
  \<^verbatim>\<open>!latitude\<close> rejects the pair and the lookup returns nothing, without looking at any
  division.
\<close>

theorem zero_latitude_rejected:
  "isPointInPolygon (Some 0.5, Some 0) equator_ring \<and>
   scan_divisions (Some 0.5, Some 0) (divisions equator_world) = Some equator_division \<and>
   fst (findDivisionForLocation example_env (JString ''0'') (JString ''0.5'') 0 equator_world)
     = Some equator_division \<and>
   fst (findDivisionForLocation example_env (JNumber (Some 0)) (JNumber (Some 0.5)) 0 equator_world)
     = None \<and>
   division_find_calls
     (snd (findDivisionForLocation example_env (JNumber (Some 0)) (JNumber (Some 0.5)) 0
             equator_world)) = 0"
  by code_simp

section \<open>Properties of the handlers\<close>


lemma client_messages_create_simps [simp]:
  "fst (client_messages_create e to m w) = twilio_accepts e to m"
  "sessions (snd (client_messages_create e to m w)) = sessions w"
  "queries (snd (client_messages_create e to m w)) = queries w"
  "reportLinks (snd (client_messages_create e to m w)) = reportLinks w"
  "divisions (snd (client_messages_create e to m w)) = divisions w"
  "locationCache (snd (client_messages_create e to m w)) = locationCache w"
  "events (snd (client_messages_create e to m w)) =
     events w @ [TwilioCreate to m (twilio_accepts e to m)]"
  by (simp_all add: client_messages_create_def Let_def)

lemma sendWhatsAppMessage_simps [simp]:
  "sessions (snd (sendWhatsAppMessage e to m w)) = sessions w"
  "queries (snd (sendWhatsAppMessage e to m w)) = queries w"
  "reportLinks (snd (sendWhatsAppMessage e to m w)) = reportLinks w"
  "divisions (snd (sendWhatsAppMessage e to m w)) = divisions w"
  "locationCache (snd (sendWhatsAppMessage e to m w)) = locationCache w"
  by (simp_all add: sendWhatsAppMessage_def)

lemma sendWhatsAppMessage_events:
  "events (snd (sendWhatsAppMessage e to m w)) =
     events w @ (if truthy_str to
                 then [TwilioCreate (normalizeUserId to True) m
                         (twilio_accepts e (normalizeUserId to True) m)]
                 else [])"
  "fst (sendWhatsAppMessage e to m w) =
     (truthy_str to \<and> twilio_accepts e (normalizeUserId to True) m)"
  by (simp_all add: sendWhatsAppMessage_def)

lemma respond_simps [simp]:
  "fst (respond e s st lo la to m now w) = (if twilio_accepts e to m then 200 else 500, twiml_empty)"
  "queries (snd (respond e s st lo la to m now w)) = queries w"
  "reportLinks (snd (respond e s st lo la to m now w)) = reportLinks w"
  "divisions (snd (respond e s st lo la to m now w)) = divisions w"
  "locationCache (snd (respond e s st lo la to m now w)) = locationCache w"
  "events (snd (respond e s st lo la to m now w)) =
     events w @ [TwilioCreate to m (twilio_accepts e to m)]"
  "sessions (snd (respond e s st lo la to m now w)) =
     snd (updateUserSession s st lo la now (sessions w))"
  by (simp_all add: respond_def Let_def split_def)

lemma findDivision_frame [simp]:
  "sessions (snd (findDivisionForLocation e a b now w)) = sessions w"
  "queries (snd (findDivisionForLocation e a b now w)) = queries w"
  "reportLinks (snd (findDivisionForLocation e a b now w)) = reportLinks w"
  "divisions (snd (findDivisionForLocation e a b now w)) = divisions w"
  "events (snd (findDivisionForLocation e a b now w)) = events w"
  by (simp_all add: findDivisionForLocation_def Let_def split_def
      split: option.splits cached.splits)

lemma notify_officers_chat_frame [simp]:
  "sessions (snd (notify_officers_chat e m now offs acc w)) = sessions w"
  "queries (snd (notify_officers_chat e m now offs acc w)) = queries w"
  "reportLinks (snd (notify_officers_chat e m now offs acc w)) = reportLinks w"
  "divisions (snd (notify_officers_chat e m now offs acc w)) = divisions w"
  by (induction offs arbitrary: acc w; simp add: split_def Let_def)+

lemma resend_updated_frame [simp]:
  "sessions (resend_updated e m cs w) = sessions w"
  "queries (resend_updated e m cs w) = queries w"
  "reportLinks (resend_updated e m cs w) = reportLinks w"
  "divisions (resend_updated e m cs w) = divisions w"
  by (induction cs arbitrary: w; simp)+


lemma awaiting_location_tail:
  assumes "\<And>s st lo la m w0. P (respond e s st lo la un m now w0)"
  shows "P (awaiting_location e us un lat lng addr lo0 lang now w)"
  unfolding awaiting_location_def Let_def split_def
  by (simp add: assms split: option.splits)

lemma webhook_tail:
  assumes "\<And>s st lo la m w0. P (respond e s st lo la (or_else (From req) []) m now w0)"
  shows "P (webhook e req now w)"
  unfolding webhook_def Let_def split_def
  by (simp add: assms awaiting_location_tail)

text \<open>
  Claim C6, as the code has it. For every inbound event the handler answers with the empty
  acknowledgement envelope, and the last thing it does before answering is to send the
  reply to the sender: the status is 200 when the messaging provider accepts the reply
  and 500 when sending it throws, which the \<^verbatim>\<open>catch\<close> of the handler answers with
  \<^verbatim>\<open>res.status(500)\<close>.
\<close>

theorem webhook_acknowledges:
  "snd (fst (webhook e req now w)) = twiml_empty \<and>
   (\<exists>evs msg ok.
      events (snd (webhook e req now w)) = evs @ [TwilioCreate (or_else (From req) []) msg ok] \<and>
      ok = twilio_accepts e (or_else (From req) []) msg \<and>
      fst (fst (webhook e req now w)) = (if ok then 200 else 500))"
  by (rule webhook_tail) simp


text \<open>
  The claim as stated fails: when the provider refuses the reply, the response is 500.
\<close>

theorem webhook_500_counterexample:
  "fst (fst (webhook example_env_down (example_text ''whatsapp:+919999999999'' ''hello'') 1000
               example_world)) = 500"
  by code_simp

theorem webhook_acknowledges_witness:
  "fst (webhook example_env (example_text ''whatsapp:+919999999999'' ''hello'') 1000 example_world)
     = (200, twiml_empty)"
  using webhook_acknowledges [of example_env "example_text ''whatsapp:+919999999999'' ''hello''"
      1000 example_world]
  by (cases "fst (webhook example_env (example_text ''whatsapp:+919999999999'' ''hello'') 1000 example_world)")
     (auto simp: example_env_def)

text \<open>From every other state the command leads to the menu.\<close>

lemma menu_command_from_other_states:
  assumes "toLowerCase (or_else (Body req) []) = ''menu''"
    and "current_state (fst (getUserSession (or_else (From req) []) now (sessions w)))
           \<noteq> LANGUAGE_SELECT"
    and "current_state (fst (getUserSession (or_else (From req) []) now (sessions w)))
           \<noteq> NAME_COLLECTION"
  shows "webhook e req now w =
           respond e (fst (getUserSession (or_else (From req) []) now (sessions w))) MENU None
             (Some (or_else (language (fst (getUserSession (or_else (From req) []) now
                                             (sessions w)))) ''en''))
             (or_else (From req) [])
             (getMainMenu (or_else (language (fst (getUserSession (or_else (From req) []) now
                                                    (sessions w)))) ''en''))
             now (w \<lparr> sessions := snd (getUserSession (or_else (From req) []) now (sessions w)) \<rparr>)"
  using assms by (simp add: webhook_def Let_def split_def)

text \<open>
  Claim C7. The claim says that the text "menu" leads to the main menu from every state.
  The handler tests the states \<^verbatim>\<open>LANGUAGE_SELECT\<close> and \<^verbatim>\<open>NAME_COLLECTION\<close> before it tests
  the command: a new user, whose session starts in \<^verbatim>\<open>LANGUAGE_SELECT\<close>, stays there and gets
  the language prompt again; in \<^verbatim>\<open>NAME_COLLECTION\<close> the word is stored as the name of the
  user and the reply is the name confirmation followed by the menu. From the state
  \<^verbatim>\<open>AWAITING_LOCATION\<close> of the example world the command works as the claim says.
\<close>

theorem menu_ignored_in_language_select:
  "current_state (fst (getUserSession ''whatsapp:+918888888888'' 1000 (sessions example_world)))
     = LANGUAGE_SELECT \<and>
   map current_state
     (sessions (snd (webhook example_env (example_text ''whatsapp:+918888888888'' ''menu'') 1000
                 example_world)))
     = [AWAITING_LOCATION, LANGUAGE_SELECT] \<and>
   events (snd (webhook example_env (example_text ''whatsapp:+918888888888'' ''menu'') 1000
                 example_world))
     = [TwilioCreate ''whatsapp:+918888888888'' (LanguagePrompt ''en'') True] \<and>
   map current_state (sessions example_world_naming) = [NAME_COLLECTION] \<and>
   map user_name
     (sessions (snd (webhook example_env (example_text ''whatsapp:+919999999999'' ''menu'') 1000
                 example_world_naming)))
     = [Some ''menu''] \<and>
   events (snd (webhook example_env (example_text ''whatsapp:+919999999999'' ''menu'') 1000
                 example_world_naming))
     = [TwilioCreate ''whatsapp:+919999999999''
          (Joined (GetText ''NAME_CONFIRMATION'' ''mr'' [''menu''])
             (GetText ''WELCOME_MESSAGE'' ''mr'' [])) True] \<and>
   map current_state
     (sessions (snd (webhook example_env (example_text ''whatsapp:+919999999999'' ''Menu'') 1000
                 example_world)))
     = [MENU] \<and>
   events (snd (webhook example_env (example_text ''whatsapp:+919999999999'' ''Menu'') 1000
                 example_world))
     = [TwilioCreate ''whatsapp:+919999999999'' (GetText ''WELCOME_MESSAGE'' ''mr'' []) True]"
  by code_simp


lemma findDivision_ignores_sessions [simp]:
  "fst (findDivisionForLocation e a b now (w \<lparr> sessions := ss \<rparr>)) =
   fst (findDivisionForLocation e a b now w)"
  by (simp add: findDivisionForLocation_def Let_def split_def
      split: option.splits cached.splits)

lemma findDivision_ignores_links [simp]:
  "fst (findDivisionForLocation e a b now (w \<lparr> reportLinks := ls \<rparr>)) =
   fst (findDivisionForLocation e a b now w)"
  by (simp add: findDivisionForLocation_def Let_def split_def
      split: option.splits cached.splits)

lemma Session_findOne_save: "Session_findOne (Session_save s ss) (user_id s) = Some s"
  by (induction ss) (simp_all add: Session_findOne_def)

lemma getUserSession_user_id: "user_id (fst (getUserSession u now ss)) = u"
  by (auto simp: getUserSession_def Session_findOne_def Let_def find_Some_iff
      split: option.splits)

lemma notify_officers_chat_all_fail:
  assumes "\<forall>off \<in> set offs. \<not> (truthy_str (phone off) \<and>
             twilio_accepts e (normalizeUserId (phone off) True) m)"
  shows "fst (notify_officers_chat e m now offs acc w) = acc \<and>
         events (snd (notify_officers_chat e m now offs acc w)) =
           events w @
           map (\<lambda>off. TwilioCreate (normalizeUserId (phone off) True) m False)
             (filter (\<lambda>off. truthy_str (phone off)) offs)"
  using assms
proof (induction offs arbitrary: acc w)
  case Nil
  show ?case by simp
next
  case (Cons off rest)
  let ?w1 = "snd (sendWhatsAppMessage e (phone off) m w)"
  have nok: "\<not> fst (sendWhatsAppMessage e (phone off) m w)"
    using Cons.prems by (simp add: sendWhatsAppMessage_events)
  have step: "notify_officers_chat e m now (off # rest) acc w =
              notify_officers_chat e m now rest acc ?w1"
    using nok by (simp add: split_def)
  have ev1: "events ?w1 =
      events w @ (if truthy_str (phone off)
                  then [TwilioCreate (normalizeUserId (phone off) True) m False] else [])"
    using nok by (auto simp: sendWhatsAppMessage_events)
  from Cons.IH [of acc ?w1] Cons.prems
  have ih: "fst (notify_officers_chat e m now rest acc ?w1) = acc"
    "events (snd (notify_officers_chat e m now rest acc ?w1)) =
       events ?w1 @
       map (\<lambda>off. TwilioCreate (normalizeUserId (phone off) True) m False)
         (filter (\<lambda>off. truthy_str (phone off)) rest)"
    by simp_all
  show ?case unfolding step using ih ev1 by simp
qed

lemma webhook_awaiting_location:
  assumes "getUserSession (or_else (From req) []) now (sessions w) = (us, ss1)"
    and "current_state us = AWAITING_LOCATION"
    and "toLowerCase (or_else (Body req) []) \<noteq> ''reset''"
    and "toLowerCase (or_else (Body req) []) \<noteq> ''menu''"
  shows "webhook e req now w =
           awaiting_location e us (or_else (From req) []) (or_null (Latitude req))
             (or_null (Longitude req)) (or_null (Address req)) (last_option us)
             (or_else (language us) ''en'') now (w \<lparr> sessions := ss1 \<rparr>)"
  using assms by (simp add: webhook_def Let_def)

lemma awaiting_location_notification_failed:
  assumes "truthy_str lat" and "truthy_str lng"
    and "fst (findDivisionForLocation e (js_of_string lat) (js_of_string lng) now w) = Some d"
    and "msg = OfficerAlert (d_name d) (reportType_of_option lo) (or_else addr ''See map link'')
                 (Some (or_else (last_description us) ''No description provided'')) None
                 (ResolveHtml (fresh_query_id (queries w)))"
    and "\<forall>off \<in> set (take 2 (filter isActive (officers d))).
           \<not> (truthy_str (phone off) \<and> twilio_accepts e (normalizeUserId (phone off) True) msg)"
  shows "\<exists>w2. awaiting_location e us un lat lng addr lo lang now w =
           respond e us MENU None (Some lang) un (GetText ''NOTIFICATION_FAILED'' lang []) now w2 \<and>
           queries w2 = queries w \<and> sessions w2 = sessions w \<and> reportLinks w2 = reportLinks w \<and>
           events w2 =
             events w @
             map (\<lambda>off. TwilioCreate (normalizeUserId (phone off) True) msg False)
               (filter (\<lambda>off. truthy_str (phone off)) (take 2 (filter isActive (officers d))))"
proof -
  let ?f = "findDivisionForLocation e (js_of_string lat) (js_of_string lng) now w"
  let ?w1 = "snd ?f"
  let ?n = "notify_officers_chat e msg now (take 2 (filter isActive (officers d))) [] ?w1"
  from notify_officers_chat_all_fail [OF assms(5), of now "[]" ?w1]
  have n: "fst ?n = []"
    "events (snd ?n) =
       events ?w1 @
       map (\<lambda>off. TwilioCreate (normalizeUserId (phone off) True) msg False)
         (filter (\<lambda>off. truthy_str (phone off)) (take 2 (filter isActive (officers d))))"
    by simp_all
  have "awaiting_location e us un lat lng addr lo lang now w =
          respond e us MENU None (Some lang) un (GetText ''NOTIFICATION_FAILED'' lang []) now (snd ?n)"
    using assms(1,2,3) n(1)
    by (simp add: awaiting_location_def Let_def split_def assms(4))
  moreover have "queries (snd ?n) = queries w" "sessions (snd ?n) = sessions w"
    "reportLinks (snd ?n) = reportLinks w"
    "events (snd ?n) =
       events w @
       map (\<lambda>off. TwilioCreate (normalizeUserId (phone off) True) msg False)
         (filter (\<lambda>off. truthy_str (phone off)) (take 2 (filter isActive (officers d))))"
    using n(2) by simp_all
  ultimately show ?thesis by blast
qed

lemma or_else_or_null [simp]: "or_else (or_null v) d = or_else v d"
  by (simp add: or_else_def or_null_def truthy_str_def split: option.splits)

text \<open>
  Claim C2. A location message that the handler processes in state \<^verbatim>\<open>AWAITING_LOCATION\<close>
  (the text is not one of the commands "reset" and "menu"), whose coordinates resolve to
  a division where the notification of the report reaches none of the first two active
  officers (for each of them, the officer has no phone or the provider refuses the
  notification; in particular when there is no officer): no query is stored, the session
  of the sender is in state \<^verbatim>\<open>MENU\<close> with no last option, and the new effects are the
  refused notifications, one for each of these officers with a phone, followed by the
  reply to the sender with the \<^verbatim>\<open>NOTIFICATION_FAILED\<close> text in the language of the session.
\<close>

theorem notification_failure_rejects:
  assumes sess: "getUserSession (or_else (From req) []) now (sessions w) = (us, ss1)"
    and st: "current_state us = AWAITING_LOCATION"
    and nr: "toLowerCase (or_else (Body req) []) \<noteq> ''reset''"
    and nm: "toLowerCase (or_else (Body req) []) \<noteq> ''menu''"
    and lat: "truthy_str (Latitude req)" and lng: "truthy_str (Longitude req)"
    and dv: "fst (findDivisionForLocation e (js_of_string (Latitude req))
                    (js_of_string (Longitude req)) now w) = Some d"
    and unreachable:
      "\<forall>off \<in> set (take 2 (filter isActive (officers d))).
          \<not> (truthy_str (phone off) \<and>
             twilio_accepts e (normalizeUserId (phone off) True)
               (chat_notification us (Address req) d (queries w)))"
  shows "queries (snd (webhook e req now w)) = queries w \<and>
         (\<exists>s'. Session_findOne (sessions (snd (webhook e req now w))) (or_else (From req) [])
                  = Some s' \<and>
               current_state s' = MENU \<and> last_option s' = None) \<and>
         events (snd (webhook e req now w)) =
           events w @
           map (\<lambda>off. TwilioCreate (normalizeUserId (phone off) True)
                        (chat_notification us (Address req) d (queries w)) False)
             (filter (\<lambda>off. truthy_str (phone off)) (take 2 (filter isActive (officers d)))) @
           [TwilioCreate (or_else (From req) [])
              (GetText ''NOTIFICATION_FAILED'' (or_else (language us) ''en'') [])
              (twilio_accepts e (or_else (From req) [])
                 (GetText ''NOTIFICATION_FAILED'' (or_else (language us) ''en'') []))]"
proof -
  let ?un = "or_else (From req) []"
  let ?lang = "or_else (language us) ''en''"
  let ?msg = "chat_notification us (Address req) d (queries w)"
  let ?attempts = "map (\<lambda>off. TwilioCreate (normalizeUserId (phone off) True) ?msg False)
             (filter (\<lambda>off. truthy_str (phone off)) (take 2 (filter isActive (officers d))))"
  have ol: "or_null (Latitude req) = Latitude req" "or_null (Longitude req) = Longitude req"
    using lat lng by (simp_all add: or_null_def)
  have uid: "user_id us = ?un"
    using getUserSession_user_id [of ?un now "sessions w"] sess by simp
  have m: "?msg = OfficerAlert (d_name d) (reportType_of_option (last_option us))
                 (or_else (or_null (Address req)) ''See map link'')
                 (Some (or_else (last_description us) ''No description provided'')) None
                 (ResolveHtml (fresh_query_id (queries (w \<lparr> sessions := ss1 \<rparr>))))"
    by (simp add: chat_notification_def)
  have dv1: "fst (findDivisionForLocation e (js_of_string (Latitude req))
                    (js_of_string (Longitude req)) now (w \<lparr> sessions := ss1 \<rparr>)) = Some d"
    using dv by simp
  from awaiting_location_notification_failed [where un = ?un and lang = ?lang,
      OF lat lng dv1 m unreachable]
  obtain w2 where a:
    "awaiting_location e us ?un (Latitude req) (Longitude req) (or_null (Address req))
       (last_option us) ?lang now (w \<lparr> sessions := ss1 \<rparr>) =
     respond e us MENU None (Some ?lang) ?un (GetText ''NOTIFICATION_FAILED'' ?lang []) now w2"
    "queries w2 = queries w" "events w2 = events w @ ?attempts"
    by auto
  have wh: "webhook e req now w =
     respond e us MENU None (Some ?lang) ?un (GetText ''NOTIFICATION_FAILED'' ?lang []) now w2"
    using webhook_awaiting_location [OF sess st nr nm, of e] a(1) ol by simp
  obtain s3 ss3 where u: "updateUserSession us MENU None (Some ?lang) now (sessions w2) = (s3, ss3)"
    by (cases "updateUserSession us MENU None (Some ?lang) now (sessions w2)")
  have s3: "current_state s3 = MENU" "last_option s3 = None" "user_id s3 = ?un"
    "ss3 = Session_save s3 (sessions w2)"
    using updateUserSession_result [OF u] uid by simp_all
  have "Session_findOne (sessions (snd (webhook e req now w))) ?un = Some s3"
    using wh u s3 Session_findOne_save [of s3 "sessions w2"] by simp
  moreover have "queries (snd (webhook e req now w)) = queries w"
    using wh a(2) by simp
  moreover have "events (snd (webhook e req now w)) =
      events w @ ?attempts @ [TwilioCreate ?un (GetText ''NOTIFICATION_FAILED'' ?lang [])
         (twilio_accepts e ?un (GetText ''NOTIFICATION_FAILED'' ?lang []))]"
    using wh a(3) by simp
  ultimately show ?thesis using s3(1,2) by blast
qed

text \<open>
  In the example world the officer of the division has a phone and the provider refuses
  the notifications of officers: the notification is tried and refused, nothing is stored
  and the sender gets the \<^verbatim>\<open>NOTIFICATION_FAILED\<close> text. With no officer in the division
  nothing is tried.
\<close>

theorem notification_failure_rejects_witness:
  "queries (snd (webhook example_env_alerts_refused
                   (example_location ''whatsapp:+919999999999'' ''18.62'' ''73.80'') 1000
                   example_world_staffed)) = [] \<and>
   events (snd (webhook example_env_alerts_refused
                   (example_location ''whatsapp:+919999999999'' ''18.62'' ''73.80'') 1000
                   example_world_staffed)) =
     [TwilioCreate ''whatsapp:+919812345678''
        (OfficerAlert ''D1'' ''Traffic Violation'' ''See map link'' (Some ''pothole'') None
           (ResolveHtml 1)) False,
      TwilioCreate ''whatsapp:+919999999999'' (GetText ''NOTIFICATION_FAILED'' ''mr'' []) True] \<and>
   map current_state
     (sessions (snd (webhook example_env_alerts_refused
                   (example_location ''whatsapp:+919999999999'' ''18.62'' ''73.80'') 1000
                   example_world_staffed))) = [MENU] \<and>
   queries (snd (webhook example_env
                   (example_location ''whatsapp:+919999999999'' ''18.62'' ''73.80'') 1000
                   example_world)) = [] \<and>
   events (snd (webhook example_env
                   (example_location ''whatsapp:+919999999999'' ''18.62'' ''73.80'') 1000
                   example_world)) =
     [TwilioCreate ''whatsapp:+919999999999'' (GetText ''NOTIFICATION_FAILED'' ''mr'' []) True]"
proof -
  let ?req = "example_location ''whatsapp:+919999999999'' ''18.62'' ''73.80''"
  let ?e = "example_env_alerts_refused"
  let ?g = "getUserSession (or_else (From ?req) []) 1000 (sessions example_world_staffed)"
  let ?gn = "getUserSession (or_else (From ?req) []) 1000 (sessions example_world)"
  have h2: "current_state (fst ?g) = AWAITING_LOCATION"
    "current_state (fst ?gn) = AWAITING_LOCATION" by code_simp+
  have h3: "toLowerCase (or_else (Body ?req) []) \<noteq> ''reset''" by code_simp
  have h4: "toLowerCase (or_else (Body ?req) []) \<noteq> ''menu''" by code_simp
  have h5: "truthy_str (Latitude ?req)" "truthy_str (Longitude ?req)" by code_simp+
  have h6: "fst (findDivisionForLocation ?e (js_of_string (Latitude ?req))
                  (js_of_string (Longitude ?req)) 1000 example_world_staffed)
              = Some example_division_staffed"
    "fst (findDivisionForLocation example_env (js_of_string (Latitude ?req))
                  (js_of_string (Longitude ?req)) 1000 example_world)
              = Some example_division"
    by code_simp+
  have h7: "\<forall>off \<in> set (take 2 (filter isActive (officers example_division_staffed))).
          \<not> (truthy_str (phone off) \<and>
             twilio_accepts ?e (normalizeUserId (phone off) True)
               (chat_notification (fst ?g) (Address ?req) example_division_staffed
                  (queries example_world_staffed)))"
    by code_simp
  have h8: "\<forall>off \<in> set (take 2 (filter isActive (officers example_division))).
          \<not> (truthy_str (phone off) \<and>
             twilio_accepts example_env (normalizeUserId (phone off) True)
               (chat_notification (fst ?gn) (Address ?req) example_division
                  (queries example_world)))"
    by (simp add: example_division_def)
  let ?rhs = "events example_world_staffed @
     map (\<lambda>off. TwilioCreate (normalizeUserId (phone off) True)
                  (chat_notification (fst ?g) (Address ?req) example_division_staffed
                     (queries example_world_staffed)) False)
       (filter (\<lambda>off. truthy_str (phone off))
          (take 2 (filter isActive (officers example_division_staffed)))) @
     [TwilioCreate (or_else (From ?req) [])
        (GetText ''NOTIFICATION_FAILED'' (or_else (language (fst ?g)) ''en'') [])
        (twilio_accepts ?e (or_else (From ?req) [])
           (GetText ''NOTIFICATION_FAILED'' (or_else (language (fst ?g)) ''en'') []))]"
  let ?rhsn = "events example_world @
     map (\<lambda>off. TwilioCreate (normalizeUserId (phone off) True)
                  (chat_notification (fst ?gn) (Address ?req) example_division
                     (queries example_world)) False)
       (filter (\<lambda>off. truthy_str (phone off))
          (take 2 (filter isActive (officers example_division)))) @
     [TwilioCreate (or_else (From ?req) [])
        (GetText ''NOTIFICATION_FAILED'' (or_else (language (fst ?gn)) ''en'') [])
        (twilio_accepts example_env (or_else (From ?req) [])
           (GetText ''NOTIFICATION_FAILED'' (or_else (language (fst ?gn)) ''en'') []))]"
  have c: "queries example_world_staffed = []" "queries example_world = []"
    "?rhs =
     [TwilioCreate ''whatsapp:+919812345678''
        (OfficerAlert ''D1'' ''Traffic Violation'' ''See map link'' (Some ''pothole'') None
           (ResolveHtml 1)) False,
      TwilioCreate ''whatsapp:+919999999999'' (GetText ''NOTIFICATION_FAILED'' ''mr'' []) True]"
    "?rhsn =
     [TwilioCreate ''whatsapp:+919999999999'' (GetText ''NOTIFICATION_FAILED'' ''mr'' []) True]"
    by code_simp+
  have m: "map current_state (sessions (snd (webhook ?e ?req 1000 example_world_staffed))) = [MENU]"
    by code_simp
  from notification_failure_rejects [OF surjective_pairing h2(1) h3 h4 h5 h6(1) h7]
  have raw: "queries (snd (webhook ?e ?req 1000 example_world_staffed)) =
               queries example_world_staffed"
    "events (snd (webhook ?e ?req 1000 example_world_staffed)) = ?rhs"
    by blast+
  from notification_failure_rejects [OF surjective_pairing h2(2) h3 h4 h5 h6(2) h8]
  have raw0: "queries (snd (webhook example_env ?req 1000 example_world)) = queries example_world"
    "events (snd (webhook example_env ?req 1000 example_world)) = ?rhsn"
    by blast+
  have "queries (snd (webhook ?e ?req 1000 example_world_staffed)) = []"
    using raw(1) c(1) by (rule trans)
  moreover have "events (snd (webhook ?e ?req 1000 example_world_staffed)) =
     [TwilioCreate ''whatsapp:+919812345678''
        (OfficerAlert ''D1'' ''Traffic Violation'' ''See map link'' (Some ''pothole'') None
           (ResolveHtml 1)) False,
      TwilioCreate ''whatsapp:+919999999999'' (GetText ''NOTIFICATION_FAILED'' ''mr'' []) True]"
    using raw(2) c(3) by (rule trans)
  moreover have "queries (snd (webhook example_env ?req 1000 example_world)) = []"
    using raw0(1) c(2) by (rule trans)
  moreover have "events (snd (webhook example_env ?req 1000 example_world)) =
     [TwilioCreate ''whatsapp:+919999999999'' (GetText ''NOTIFICATION_FAILED'' ''mr'' []) True]"
    using raw0(2) c(4) by (rule trans)
  ultimately show ?thesis using m by blast
qed

lemma normalizeUserId_truthy [simp]: "truthy_str (Some (normalizeUserId u True))"
  by (simp add: normalizeUserId_def truthy_str_def Let_def)

lemma report_failure_frame [simp]:
  "sessions (snd (report_failure e u w)) = sessions w"
  "queries (snd (report_failure e u w)) = queries w"
  "reportLinks (snd (report_failure e u w)) = reportLinks w"
  "divisions (snd (report_failure e u w)) = divisions w"
  "fst (report_failure e u w) = ProcError"
  by (simp_all add: report_failure_def)

lemma report_failure_events:
  "\<exists>es. events (snd (report_failure e u w)) = events w @ es \<and>
        (\<forall>ev \<in> set es. \<exists>to m ok. ev = TwilioCreate to m ok)"
  by (simp add: report_failure_def sendWhatsAppMessage_events)

lemma report_endpoint_outside:
  assumes "truthy_str (r_userId req)" and "truthy_str (r_reportType req)"
    and "fst (findDivisionForLocation e (r_latitude req) (r_longitude req) now w) = None"
  shows "queries (snd (report_endpoint e req now w)) = queries w \<and>
         sessions (snd (report_endpoint e req now w)) = sessions w \<and>
         divisions (snd (report_endpoint e req now w)) = divisions w \<and>
         reportLinks (snd (report_endpoint e req now w)) =
           (if truthy_str (r_linkId req)
            then ReportLink_markUsed (the (r_linkId req)) (normalizeUserId (r_userId req) False)
                   now (reportLinks w)
            else reportLinks w) \<and>
         \<not> rr_success (fst (report_endpoint e req now w)) \<and>
         (\<exists>to ok.
            to = normalizeUserId (Some (normalizeUserId (r_userId req) True)) True \<and>
            ok = twilio_accepts e to (GetText ''LOCATION_OUTSIDE_JURISDICTION'' ''en'' []) \<and>
            events (snd (report_endpoint e req now w)) =
              events w @
                TwilioCreate to (GetText ''LOCATION_OUTSIDE_JURISDICTION'' ''en'' []) ok #
                (if ok then []
                 else [TwilioCreate to (GetText ''REPORT_ERROR'' ''en'' [])
                         (twilio_accepts e to (GetText ''REPORT_ERROR'' ''en'' []))]) \<and>
            rr_status (fst (report_endpoint e req now w)) = (if ok then 400 else 500) \<and>
            rr_error (fst (report_endpoint e req now w)) =
              Some (if ok then ''Location outside jurisdiction''
                    else twilio_error e to
                           (GetText ''LOCATION_OUTSIDE_JURISDICTION'' ''en'' [])))"
proof -
  let ?w1 = "if truthy_str (r_linkId req)
             then w \<lparr> reportLinks :=
                        ReportLink_markUsed (the (r_linkId req))
                          (normalizeUserId (r_userId req) False) now (reportLinks w) \<rparr>
             else w"
  let ?cu = "normalizeUserId (r_userId req) True"
  let ?to = "normalizeUserId (Some ?cu) True"
  let ?msg = "GetText ''LOCATION_OUTSIDE_JURISDICTION'' ''en'' []"
  let ?err = "GetText ''REPORT_ERROR'' ''en'' []"
  let ?w2 = "snd (findDivisionForLocation e (r_latitude req) (r_longitude req) now ?w1)"
  let ?s = "sendWhatsAppMessage e (Some ?cu) ?msg ?w2"
  have none: "fst (findDivisionForLocation e (r_latitude req) (r_longitude req) now ?w1) = None"
    using assms(3) by simp
  have ep: "report_endpoint e req now w =
      (if fst ?s
       then (\<lparr> rr_status = 400, rr_success = False,
               rr_error = Some ''Location outside jurisdiction'', rr_divisionName = None \<rparr>,
             snd ?s)
       else (\<lparr> rr_status = 500, rr_success = False,
               rr_error = Some (sendWhatsAppMessage_error e (Some ?cu) ?msg),
               rr_divisionName = None \<rparr>,
             snd (report_failure e (r_userId req) (snd ?s))))"
    using assms(1,2) none by (simp add: report_endpoint_def Let_def split_def)
  have ok: "fst ?s = twilio_accepts e ?to ?msg"
    by (simp add: sendWhatsAppMessage_events)
  have ev: "events (snd ?s) = events w @ [TwilioCreate ?to ?msg (twilio_accepts e ?to ?msg)]"
    by (simp add: sendWhatsAppMessage_events)
  have evf: "events (snd (report_failure e (r_userId req) (snd ?s))) =
               events (snd ?s) @ [TwilioCreate ?to ?err (twilio_accepts e ?to ?err)]"
    by (simp add: report_failure_def sendWhatsAppMessage_events)
  have err: "sendWhatsAppMessage_error e (Some ?cu) ?msg = twilio_error e ?to ?msg"
    by (simp add: sendWhatsAppMessage_error_def)
  have q: "queries (snd (report_endpoint e req now w)) = queries w"
    "sessions (snd (report_endpoint e req now w)) = sessions w"
    "divisions (snd (report_endpoint e req now w)) = divisions w"
    "reportLinks (snd (report_endpoint e req now w)) =
           (if truthy_str (r_linkId req)
            then ReportLink_markUsed (the (r_linkId req)) (normalizeUserId (r_userId req) False)
                   now (reportLinks w)
            else reportLinks w)"
    "\<not> rr_success (fst (report_endpoint e req now w))"
    "rr_status (fst (report_endpoint e req now w)) =
       (if twilio_accepts e ?to ?msg then 400 else 500)"
    "rr_error (fst (report_endpoint e req now w)) =
       Some (if twilio_accepts e ?to ?msg then ''Location outside jurisdiction''
             else twilio_error e ?to ?msg)"
    unfolding ep ok err by simp_all
  have "events (snd (report_endpoint e req now w)) =
          events w @ TwilioCreate ?to ?msg (twilio_accepts e ?to ?msg) #
            (if twilio_accepts e ?to ?msg then []
             else [TwilioCreate ?to ?err (twilio_accepts e ?to ?err)])"
    unfolding ep ok using ev evf by simp
  with q show ?thesis by simp
qed

lemma fold_max_bounds:
  "a \<le> fold max (map q_id qs) a \<and> (\<forall>q \<in> set qs. q_id q \<le> fold max (map q_id qs) a)"
proof (induction qs arbitrary: a)
  case Nil
  show ?case by simp
next
  case (Cons x xs)
  from Cons [of "max (q_id x) a"] show ?case by auto
qed

lemma fresh_query_id_fresh: "q \<in> set qs \<Longrightarrow> q_id q \<noteq> fresh_query_id qs"
  using fold_max_bounds [of 0 qs] by (auto simp: fresh_query_id_def)

lemma update_first_last:
  "\<forall>x \<in> set xs. \<not> P x \<Longrightarrow> P y \<Longrightarrow> update_first P f (xs @ [y]) = xs @ [f y]"
  by (induction xs) simp_all

lemma Query_save_simps [simp]:
  "sessions (Query_save q w) = sessions w"
  "queries (Query_save q w) = queries w @ [q]"
  "reportLinks (Query_save q w) = reportLinks w"
  "divisions (Query_save q w) = divisions w"
  "events (Query_save q w) = events w @ [QuerySaved q]"
  by (simp_all add: Query_save_def)

lemma Query_markNotified_simps [simp]:
  "sessions (Query_markNotified i cs w) = sessions w"
  "reportLinks (Query_markNotified i cs w) = reportLinks w"
  "divisions (Query_markNotified i cs w) = divisions w"
  "events (Query_markNotified i cs w) = events w"
  by (simp_all add: Query_markNotified_def)

lemma notify_loop_frame [simp]:
  "sessions (snd (notify_loop e m now offs acc w)) = sessions w"
  "queries (snd (notify_loop e m now offs acc w)) = queries w"
  "reportLinks (snd (notify_loop e m now offs acc w)) = reportLinks w"
  "divisions (snd (notify_loop e m now offs acc w)) = divisions w"
  by (induction offs arbitrary: acc w; simp add: split_def Let_def)+

lemma notify_loop_prefix:
  "prefix (events w) (events (snd (notify_loop e m now offs acc w)))"
proof (induction offs arbitrary: acc w)
  case Nil
  show ?case by simp
next
  case (Cons off rest)
  have ih: "\<And>acc w1. prefix (events w) (events w1) \<Longrightarrow>
              prefix (events w) (events (snd (notify_loop e m now rest acc w1)))"
    using Cons prefix_order.trans by blast
  show ?case
    by (auto simp: split_def Let_def intro!: ih)
qed

lemma notifyDivisionOfficers_frame [simp]:
  "sessions (snd (notifyDivisionOfficers e q d now w)) = sessions w"
  "queries (snd (notifyDivisionOfficers e q d now w)) = queries w"
  "reportLinks (snd (notifyDivisionOfficers e q d now w)) = reportLinks w"
  "divisions (snd (notifyDivisionOfficers e q d now w)) = divisions w"
  by (simp_all add: notifyDivisionOfficers_def Let_def)

lemma notifyDivisionOfficers_prefix:
  "prefix (events w) (events (snd (notifyDivisionOfficers e q d now w)))"
  by (simp add: notifyDivisionOfficers_def Let_def notify_loop_prefix)

lemma sendWhatsAppMessage_prefix:
  "prefix (events w) (events (snd (sendWhatsAppMessage e to m w)))"
  by (simp add: sendWhatsAppMessage_events)

lemma report_failure_prefix:
  "prefix (events w) (events (snd (report_failure e u w)))"
  by (simp add: report_failure_def sendWhatsAppMessage_events)

text \<open>After the save of a query with a fresh identifier: the stored query keeps its
  location and its division, and nothing else is stored.\<close>

lemma confirm_and_notify_queries:
  assumes "queries w = qs @ [q]" and "q_id q = fresh_query_id qs"
  shows "\<exists>q'. queries (snd (confirm_and_notify e u q dv dn now w)) = qs @ [q'] \<and>
              q_location q' = q_location q \<and> q_division q' = q_division q \<and>
              divisionName q' = divisionName q \<and> q_id q' = q_id q"
proof -
  have upd: "update_first (\<lambda>x. q_id x = q_id q) f (qs @ [q]) = qs @ [f q]" for f
    by (rule update_first_last) (auto simp: assms(2) fresh_query_id_fresh)
  show ?thesis
    by (auto simp: confirm_and_notify_def Let_def split_def assms(1) upd
        Query_markNotified_def split: option.splits)
qed

lemma confirm_and_notify_frame [simp]:
  "sessions (snd (confirm_and_notify e u q dv dn now w)) = sessions w"
  "reportLinks (snd (confirm_and_notify e u q dv dn now w)) = reportLinks w"
  "divisions (snd (confirm_and_notify e u q dv dn now w)) = divisions w"
  by (simp_all add: confirm_and_notify_def Let_def split_def split: option.splits)

lemma confirm_and_notify_prefix:
  "prefix (events w) (events (snd (confirm_and_notify e u q dv dn now w)))"
proof -
  let ?s = "sendWhatsAppMessage e (Some (normalizeUserId u True)) (ReportThanks (query_type q) dn) w"
  have 1: "prefix (events w) (events (snd ?s))" by (rule sendWhatsAppMessage_prefix)
  have 2: "prefix (events (snd ?s)) (events (snd (report_failure e u (snd ?s))))"
    by (rule report_failure_prefix)
  have 3: "prefix (events (snd ?s)) (events (snd (notifyDivisionOfficers e q d now (snd ?s))))" for d
    by (rule notifyDivisionOfficers_prefix)
  show ?thesis
    using 1 prefix_order.trans [OF 1 2] prefix_order.trans [OF 1 3]
    by (auto simp: confirm_and_notify_def Let_def split_def split: option.splits)
qed


lemma findById_member:
  "Division_findById ds i = Some d \<Longrightarrow> d_id d = i \<and> d \<in> set ds"
  by (auto simp: Division_findById_def find_Some_iff)

lemma findDivision_result:
  assumes "fst (findDivisionForLocation e a b now w) = Some d"
  shows "d \<in> set (divisions w) \<and> truthy a \<and> truthy b \<and>
         parseFloat (parseFloat_string e) a \<noteq> None \<and>
         parseFloat (parseFloat_string e) b \<noteq> None \<and>
         cacheKey_of e a b \<noteq> None"
  using assms
  by (auto simp: findDivisionForLocation_def cacheKey_of_def Let_def split_def
      Division_findById_def find_Some_iff scan_divisions_mem
      split: option.splits cached.splits if_splits)

text \<open>
  After a lookup that gives a division, a second lookup of the same coordinates at the
  same time is answered by the cache: it gives the first stored division with the
  identifier of the division of the first lookup.
\<close>

lemma second_lookup:
  assumes "fst (findDivisionForLocation e a b now w) = Some d0"
  shows "\<exists>d. Division_findById (divisions w) (d_id d0) = Some d \<and>
             fst (findDivisionForLocation e a b now (snd (findDivisionForLocation e a b now w)))
               = Some d"
proof -
  from findDivision_result [OF assms] obtain k where key: "cacheKey_of e a b = Some k"
    and mem: "d0 \<in> set (divisions w)" by auto
  show ?thesis
  proof (cases "\<exists>en. locationCache w k = Some en \<and> now \<le> c_expires en")
    case True
    then obtain en where en: "locationCache w k = Some en" "now \<le> c_expires en" by blast
    note hit = findDivision_hit [OF key en]
    from hit assms
    have "(case c_value en of CachedDivision i n \<Rightarrow> Division_findById (divisions w) i
           | CachedOutside \<Rightarrow> None) = Some d0" by simp
    then obtain i where "Division_findById (divisions w) i = Some d0"
      by (cases "c_value en") simp_all
    then have "Division_findById (divisions w) (d_id d0) = Some d0"
      using findById_member by fastforce
    moreover have "fst (findDivisionForLocation e a b now
                          (snd (findDivisionForLocation e a b now w))) = Some d0"
      using hit assms by simp
    ultimately show ?thesis by simp
  next
    case False
    let ?w' = "snd (findDivisionForLocation e a b now w)"
    from findDivision_miss [OF key surjective_pairing False] assms
    have m: "locationCache ?w' k =
               Some \<lparr> c_value = CachedDivision (d_id d0) (d_name d0),
                      c_expires = now + stdTTL * 1000 \<rparr>"
      "divisions ?w' = divisions w" by simp_all
    have "now \<le> c_expires \<lparr> c_value = CachedDivision (d_id d0) (d_name d0),
                              c_expires = now + stdTTL * 1000 \<rparr>"
      by (simp add: stdTTL_def)
    from findDivision_hit [OF key m(1) this]
    have "fst (findDivisionForLocation e a b now ?w') =
            Division_findById (divisions w) (d_id d0)"
      by (simp add: m(2))
    moreover from mem obtain d where "Division_findById (divisions w) (d_id d0) = Some d"
      by (cases "Division_findById (divisions w) (d_id d0)")
         (auto simp: Division_findById_def find_None_iff)
    ultimately show ?thesis by simp
  qed
qed

lemma saved_then_confirmed:
  assumes "q_id q = fresh_query_id (queries w1)"
    and "fst (findDivisionForLocation e a b now w) = Some d"
    and "q_division q = Some (d_id d)" and "divisionName q = Some (d_name d)"
    and "q_location q =
           Some \<lparr> latitude = parseFloat (parseFloat_string e) a,
                  longitude = parseFloat (parseFloat_string e) b, address = ad \<rparr>"
    and "queries w1 = queries w" and "events w1 = events w"
  shows "web_outcome e a b now w (snd (confirm_and_notify e u q dv dn now (Query_save q w1)))"
proof -
  let ?w' = "snd (confirm_and_notify e u q dv dn now (Query_save q w1))"
  have "queries (Query_save q w1) = queries w1 @ [q]" by simp
  from confirm_and_notify_queries [OF this assms(1), of e u dv dn now]
  obtain q' where q': "queries ?w' = queries w1 @ [q']" "q_location q' = q_location q"
       "q_division q' = q_division q" "divisionName q' = divisionName q" "q_id q' = q_id q"
    by blast
  have "prefix (events w1 @ [QuerySaved q]) (events ?w')"
    using confirm_and_notify_prefix [of "Query_save q w1" e u q dv dn now] by simp
  with q' assms
  have "queries ?w' = queries w @ [q'] \<and>
        fst (findDivisionForLocation e a b now w) = Some d \<and>
        q_division q' = Some (d_id d) \<and> divisionName q' = Some (d_name d) \<and>
        q_location q' =
          Some \<lparr> latitude = parseFloat (parseFloat_string e) a,
                 longitude = parseFloat (parseFloat_string e) b, address = ad \<rparr> \<and>
        q_id q = q_id q' \<and> prefix (events w @ [QuerySaved q]) (events ?w')"
    by simp
  then show ?thesis unfolding web_outcome_def by blast
qed

lemma web_outcome_unchanged: "queries w' = queries w \<Longrightarrow> web_outcome e a b now w w'"
  by (simp add: web_outcome_def)

lemma processReportInBackground_outcome:
  "web_outcome e a b now w (snd (processReportInBackground e file a b descr u rt addr now w))"
proof -
  let ?f = "findDivisionForLocation e a b now w"
  let ?w1 = "snd ?f"
  show ?thesis
  proof (cases "fst ?f")
    case None
    then have "queries (snd (processReportInBackground e file a b descr u rt addr now w)) = queries w"
      by (simp add: processReportInBackground_def Let_def split_def)
    then show ?thesis by (rule web_outcome_unchanged)
  next
    case (Some d)
    define q where "q =
        \<lparr> q_id = fresh_query_id (queries ?w1), q_user_id = normalizeUserId u True,
          q_user_name = lookup_user_name (normalizeUserId u True) ?w1,
          query_type = getReportTypeText rt,
          description = Some (or_else descr ''No description provided''),
          photo_url = uploadImageToR2 e file,
          q_location =
            Some \<lparr> latitude = parseFloat (parseFloat_string e) a,
                   longitude = parseFloat (parseFloat_string e) b,
                   address = or_else addr ''Unknown location'' \<rparr>,
          status = ''Pending'', q_division = Some (d_id d),
          divisionName = Some (d_name d), divisionNotified = False,
          divisionOfficersNotified = [] \<rparr>"
    have eq: "processReportInBackground e file a b descr u rt addr now w =
              confirm_and_notify e u q (Some d) (d_name d) now (Query_save q ?w1)"
      using Some by (simp add: processReportInBackground_def Let_def split_def q_def)
    show ?thesis
      unfolding eq
      by (rule saved_then_confirmed [where d = d and ad = "or_else addr ''Unknown location''"])
         (simp_all add: q_def Some)
  qed
qed

lemma processReportWithoutImage_outcome:
  assumes "truthy a" and "truthy b"
  shows "web_outcome e a b now w (snd (processReportWithoutImage e a b descr u rt addr now w))"
proof -
  let ?f = "findDivisionForLocation e a b now w"
  let ?w1 = "snd ?f"
  show ?thesis
  proof (cases "fst ?f")
    case None
    then have "queries (snd (processReportWithoutImage e a b descr u rt addr now w)) = queries w"
      using assms by (simp add: processReportWithoutImage_def Let_def split_def)
    then show ?thesis by (rule web_outcome_unchanged)
  next
    case (Some d)
    then obtain x y where num: "parseFloat (parseFloat_string e) a = Some x"
      "parseFloat (parseFloat_string e) b = Some y"
      using findDivision_result [of e a b now w d] by auto
    define q where "q =
        \<lparr> q_id = fresh_query_id (queries ?w1), q_user_id = normalizeUserId u True,
          q_user_name = lookup_user_name (normalizeUserId u True) ?w1,
          query_type = getReportTypeText rt, description = descr, photo_url = None,
          q_location =
            Some \<lparr> latitude = parseFloat (parseFloat_string e) a,
                   longitude = parseFloat (parseFloat_string e) b,
                   address = or_else addr ''Unknown location'' \<rparr>,
          status = ''Pending'', q_division = Some (d_id d),
          divisionName = Some (d_name d), divisionNotified = False,
          divisionOfficersNotified = [] \<rparr>"
    have eq: "processReportWithoutImage e a b descr u rt addr now w =
              confirm_and_notify e u q (Some d) (d_name d) now (Query_save q ?w1)"
      using Some assms
      by (simp add: processReportWithoutImage_def Let_def split_def q_def num)
    show ?thesis
      unfolding eq
      by (rule saved_then_confirmed [where d = d and ad = "or_else addr ''Unknown location''"])
         (simp_all add: q_def Some)
  qed
qed

lemma endpoint_outcome_unchanged:
  "queries w' = queries w \<Longrightarrow> endpoint_outcome e a b now w w'"
  by (simp add: endpoint_outcome_def)

lemma report_endpoint_outcome:
  "endpoint_outcome e (r_latitude req) (r_longitude req) now w
     (snd (report_endpoint e req now w))"
proof (cases "truthy_str (r_userId req) \<and> truthy_str (r_reportType req)")
  case False
  then have "queries (snd (report_endpoint e req now w)) = queries w"
    by (auto simp: report_endpoint_def)
  then show ?thesis by (rule endpoint_outcome_unchanged)
next
  case True
  let ?a = "r_latitude req"
  let ?b = "r_longitude req"
  let ?w1 = "if truthy_str (r_linkId req)
             then w \<lparr> reportLinks :=
                        ReportLink_markUsed (the (r_linkId req))
                          (normalizeUserId (r_userId req) False) now (reportLinks w) \<rparr>
             else w"
  let ?f = "findDivisionForLocation e ?a ?b now ?w1"
  let ?w2 = "snd ?f"
  let ?w3 = "snd (case r_file req of
                   Some file \<Rightarrow>
                     processReportInBackground e file ?a ?b
                       (r_description req) (r_userId req) (r_reportType req)
                       (r_address req) now ?w2
                 | None \<Rightarrow>
                     processReportWithoutImage e ?a ?b
                       (r_description req) (r_userId req) (r_reportType req)
                       (r_address req) now ?w2)"
  have w2: "queries ?w2 = queries w" "divisions ?w1 = divisions w" "events ?w2 = events w"
    by simp_all
  have f1: "fst ?f = fst (findDivisionForLocation e ?a ?b now w)"
    by simp
  show ?thesis
  proof (cases "fst ?f")
    case None
    then have "queries (snd (report_endpoint e req now w)) = queries w"
      using True by (simp add: report_endpoint_def Let_def split_def)
    then show ?thesis by (rule endpoint_outcome_unchanged)
  next
    case (Some d0)
    then have t: "truthy ?a" "truthy ?b"
      using findDivision_result [of e ?a ?b now ?w1 d0] by simp_all
    have ep: "snd (report_endpoint e req now w) = ?w3"
      using True Some by (simp add: report_endpoint_def Let_def split_def)
    have po: "web_outcome e ?a ?b now ?w2 ?w3"
      using t by (simp add: processReportInBackground_outcome processReportWithoutImage_outcome
          split: option.splits)
    from second_lookup [OF Some] obtain d where
      d: "Division_findById (divisions ?w1) (d_id d0) = Some d"
         "fst (findDivisionForLocation e ?a ?b now ?w2) = Some d"
      by blast
    have dw: "Division_findById (divisions w) (d_id d0) = Some d"
      using d(1) unfolding w2(2) .
    have did: "d_id d = d_id d0"
      using findById_member [OF dw] by simp
    have d0: "fst (findDivisionForLocation e ?a ?b now w) = Some d0"
      using Some f1 by simp
    show ?thesis
    proof (cases "queries ?w3 = queries ?w2")
      case True
      then have "queries (snd (report_endpoint e req now w)) = queries w"
        unfolding ep using w2(1) by simp
      then show ?thesis by (rule endpoint_outcome_unchanged)
    next
      case False
      with po obtain q q0 d' ad where s:
        "queries ?w3 = queries ?w2 @ [q]"
        "fst (findDivisionForLocation e ?a ?b now ?w2) = Some d'"
        "q_division q = Some (d_id d')" "divisionName q = Some (d_name d')"
        "q_location q =
           Some \<lparr> latitude = parseFloat (parseFloat_string e) ?a,
                  longitude = parseFloat (parseFloat_string e) ?b, address = ad \<rparr>"
        "q_id q0 = q_id q" "prefix (events ?w2 @ [QuerySaved q0]) (events ?w3)"
        unfolding web_outcome_def by blast
      from s(2) d(2) have dd: "d' = d" by simp
      have "queries ?w3 = queries w @ [q] \<and>
            fst (findDivisionForLocation e ?a ?b now w) = Some d0 \<and>
            Division_findById (divisions w) (d_id d0) = Some d \<and>
            q_division q = Some (d_id d0) \<and> divisionName q = Some (d_name d) \<and>
            q_location q =
              Some \<lparr> latitude = parseFloat (parseFloat_string e) ?a,
                     longitude = parseFloat (parseFloat_string e) ?b, address = ad \<rparr> \<and>
            q_id q0 = q_id q \<and> prefix (events w @ [QuerySaved q0]) (events ?w3)"
        using s dd did dw d0 w2(1,3) by simp
      then show ?thesis unfolding ep endpoint_outcome_def by blast
    qed
  qed
qed


lemma chat_outcome_cong:
  "chat_outcome e a b now (w \<lparr> sessions := ss \<rparr>) w' = chat_outcome e a b now w w'"
  by (simp add: chat_outcome_def)

lemma chat_outcome_same: "queries w0 = queries w \<Longrightarrow> chat_outcome e a b now w w0"
  by (simp add: chat_outcome_def)

lemma chat_outcome_locationless:
  "queries w0 = queries w @ [q] \<Longrightarrow> q_location q = None \<Longrightarrow> chat_outcome e a b now w w0"
  by (auto simp: chat_outcome_def)

lemma chat_outcome_respond:
  assumes "chat_outcome e a b now w w0"
  shows "chat_outcome e a b now w (snd (respond e s st lo la to m now w0))"
proof -
  have "prefix (events w0) (events (snd (respond e s st lo la to m now w0)))" by simp
  then have "prefix xs (events w0) \<Longrightarrow> prefix xs (events (snd (respond e s st lo la to m now w0)))"
    for xs using prefix_order.trans by blast
  with assms show ?thesis
    unfolding chat_outcome_def by (simp del: respond_simps(6)) blast
qed

lemma notify_officers_chat_events:
  "\<exists>es. events (snd (notify_officers_chat e m now offs acc w)) = events w @ es \<and>
        (fst (notify_officers_chat e m now offs acc w) \<noteq> acc \<longrightarrow>
           (\<exists>to. TwilioCreate to m True \<in> set es))"
proof (induction offs arbitrary: acc w)
  case Nil
  show ?case by simp
next
  case (Cons off rest)
  let ?s = "sendWhatsAppMessage e (phone off) m w"
  let ?acc1 = "if fst ?s
               then acc @ [\<lparr> c_officer_id = None, c_name = None, c_phone = the (phone off),
                              c_time = now \<rparr>]
               else acc"
  have step: "notify_officers_chat e m now (off # rest) acc w =
              notify_officers_chat e m now rest ?acc1 (snd ?s)"
    by (simp add: split_def)
  from Cons [of ?acc1 "snd ?s"] obtain es2 where es2:
    "events (snd (notify_officers_chat e m now rest ?acc1 (snd ?s))) = events (snd ?s) @ es2"
    "fst (notify_officers_chat e m now rest ?acc1 (snd ?s)) \<noteq> ?acc1 \<longrightarrow>
       (\<exists>to. TwilioCreate to m True \<in> set es2)"
    by blast
  obtain es1 where es1: "events (snd ?s) = events w @ es1"
    "fst ?s \<longrightarrow> (\<exists>to. TwilioCreate to m True \<in> set es1)"
    by (auto simp: sendWhatsAppMessage_events)
  have a: "events (snd (notify_officers_chat e m now rest ?acc1 (snd ?s))) = events w @ (es1 @ es2)"
    using es1 es2 by simp
  have b: "\<exists>to. TwilioCreate to m True \<in> set (es1 @ es2)"
    if "fst (notify_officers_chat e m now rest ?acc1 (snd ?s)) \<noteq> acc"
  proof (cases "fst ?s")
    case True
    with es1 show ?thesis by auto
  next
    case False
    with that es2 show ?thesis by auto
  qed
  show ?case unfolding step using a b by blast
qed

lemma resend_updated_prefix: "prefix (events w) (events (resend_updated e m cs w))"
proof (induction cs arbitrary: w)
  case Nil
  show ?case by simp
next
  case (Cons c cs)
  have "prefix (events w) (events (snd (sendWhatsAppMessage e (Some (c_phone c)) m w)))"
    by (rule sendWhatsAppMessage_prefix)
  with Cons show ?case using prefix_order.trans by fastforce
qed


lemma awaiting_location_outcome:
  "chat_outcome e (js_of_string lat) (js_of_string lng) now w
     (snd (awaiting_location e us un lat lng addr lo lang now w))"
proof (cases "truthy_str lat \<and> truthy_str lng")
  case False
  then have "queries (snd (awaiting_location e us un lat lng addr lo lang now w)) = queries w"
    by (auto simp: awaiting_location_def)
  then show ?thesis by (rule chat_outcome_same)
next
  case True
  let ?f = "findDivisionForLocation e (js_of_string lat) (js_of_string lng) now w"
  let ?w1 = "snd ?f"
  show ?thesis
  proof (cases "fst ?f")
    case None
    then have "queries (snd (awaiting_location e us un lat lng addr lo lang now w)) = queries w"
      using True by (simp add: awaiting_location_def Let_def split_def)
    then show ?thesis by (rule chat_outcome_same)
  next
    case (Some d)
    define reportType where "reportType = reportType_of_option lo"
    define descr where "descr = or_else (last_description us) ''No description provided''"
    define newQuery where "newQuery =
        \<lparr> q_id = fresh_query_id (queries ?w1), q_user_id = un,
          q_user_name = or_else (user_name us) ''Anonymous'',
          query_type = reportType, description = Some descr,
          photo_url = or_null (last_photo_url us),
          q_location =
            Some \<lparr> latitude = parseFloat (parseFloat_string e) (js_of_string lat),
                   longitude = parseFloat (parseFloat_string e) (js_of_string lng),
                   address = or_else addr (the lat @ '', '' @ the lng) \<rparr>,
          status = ''Pending'', q_division = Some (d_id d),
          divisionName = Some (d_name d), divisionNotified = False,
          divisionOfficersNotified = [] \<rparr>"
    define msg where "msg = OfficerAlert (d_name d) reportType (or_else addr ''See map link'')
                         (Some descr) None (ResolveHtml (q_id newQuery))"
    let ?n = "notify_officers_chat e msg now (take 2 (filter isActive (officers d))) [] ?w1"
    show ?thesis
    proof (cases "fst ?n = []")
      case True
      then have "queries (snd (awaiting_location e us un lat lng addr lo lang now w)) = queries w"
        using \<open>truthy_str lat \<and> truthy_str lng\<close> Some
        by (simp add: awaiting_location_def Let_def split_def msg_def newQuery_def
            reportType_def descr_def)
      then show ?thesis by (rule chat_outcome_same)
    next
      case False
      define saved where "saved = newQuery \<lparr> divisionNotified := True,
                                              divisionOfficersNotified := fst ?n \<rparr>"
      define w4 where "w4 = resend_updated e
                                  (OfficerAlert (d_name d) reportType
                                     (or_else addr ''See map link'') (Some descr) None
                                     (ResolvePath (q_id saved)))
                                  (fst ?n) (Query_save saved (snd ?n))"
      define s1 where "s1 = us \<lparr> last_description := None, last_photo_url := None \<rparr>"
      define w6 where "w6 = w4 \<lparr> events := events w4 @ [EmailAttempt (q_id saved)],
                                 sessions := Session_save s1 (sessions w4) \<rparr>"
      have eq: "awaiting_location e us un lat lng addr lo lang now w =
                respond e s1 MENU None (Some lang) un
                  (GetText ''REPORT_RESPONSE'' lang
                     [reportType,
                      if truthy_str (or_null (last_photo_url us)) then ''true'' else ''false''])
                  now w6"
        using \<open>truthy_str lat \<and> truthy_str lng\<close> Some False
        by (simp add: awaiting_location_def Let_def split_def msg_def newQuery_def
            reportType_def descr_def saved_def w4_def s1_def w6_def)
      from notify_officers_chat_events [of e msg now "take 2 (filter isActive (officers d))" "[]" ?w1]
        False
      obtain es to where es: "events (snd ?n) = events w @ es" "TwilioCreate to msg True \<in> set es"
        by auto
      have q6: "queries w6 = queries w @ [saved]"
        by (simp add: w6_def w4_def)
      have "prefix (events (Query_save saved (snd ?n))) (events w4)"
        unfolding w4_def by (rule resend_updated_prefix)
      then have "prefix (events w @ es @ [QuerySaved saved]) (events w4)"
        using es(1) by simp
      then have p6: "prefix (events w @ es @ [QuerySaved saved]) (events w6)"
        by (simp add: w6_def)
      have sv: "q_division saved = Some (d_id d)" "divisionName saved = Some (d_name d)"
        "divisionNotified saved" "divisionOfficersNotified saved \<noteq> []"
        using False by (simp_all add: saved_def newQuery_def)
      have ex: "\<exists>pre to m. prefix (events w @ pre @ [QuerySaved saved]) (events w6) \<and>
               TwilioCreate to m True \<in> set pre \<and> is_officer_alert m"
        by (rule exI [of _ es], rule exI [of _ to], rule exI [of _ msg])
           (simp add: p6 es(2), simp add: msg_def)
      have loc: "q_location saved =
                   Some \<lparr> latitude = parseFloat (parseFloat_string e) (js_of_string lat),
                          longitude = parseFloat (parseFloat_string e) (js_of_string lng),
                          address = or_else addr (the lat @ '', '' @ the lng) \<rparr>"
        by (simp add: saved_def newQuery_def)
      have dd: "\<exists>d a. fst ?f = Some d \<and> q_division saved = Some (d_id d) \<and>
                  divisionName saved = Some (d_name d) \<and>
                  q_location saved =
                    Some \<lparr> latitude = parseFloat (parseFloat_string e) (js_of_string lat),
                           longitude = parseFloat (parseFloat_string e) (js_of_string lng),
                           address = a \<rparr>"
        by (rule exI [of _ d], rule exI [of _ "or_else addr (the lat @ '', '' @ the lng)"])
           (simp add: Some sv loc)
      from q6 sv(3,4) ex dd
      have "chat_outcome e (js_of_string lat) (js_of_string lng) now w w6"
        unfolding chat_outcome_def by blast
      then show ?thesis
        unfolding eq by (rule chat_outcome_respond)
    qed
  qed
qed

lemma webhook_outcome:
  "chat_outcome e (js_of_string (or_null (Latitude req))) (js_of_string (or_null (Longitude req)))
     now w (snd (webhook e req now w))"
proof -
  let ?un = "or_else (From req) []"
  let ?g = "getUserSession ?un now (sessions w)"
  let ?us = "fst ?g"
  let ?w1 = "w \<lparr> sessions := snd ?g \<rparr>"
  let ?cmd = "toLowerCase (or_else (Body req) [])"
  let ?lang = "or_else (language ?us) ''en''"
  consider
    (other) "?cmd = ''reset'' \<or> ?cmd = ''menu'' \<or>
             (current_state ?us \<noteq> AWAITING_SUGGESTION_TEXT \<and>
              current_state ?us \<noteq> AWAITING_LOCATION \<and> current_state ?us \<noteq> AWAITING_JOIN)"
  | (suggestion) "?cmd \<noteq> ''reset''" "?cmd \<noteq> ''menu''"
      "current_state ?us = AWAITING_SUGGESTION_TEXT"
  | (location) "?cmd \<noteq> ''reset''" "?cmd \<noteq> ''menu''" "current_state ?us = AWAITING_LOCATION"
  | (join) "?cmd \<noteq> ''reset''" "?cmd \<noteq> ''menu''" "current_state ?us = AWAITING_JOIN"
    by blast
  then show ?thesis
  proof cases
    case other
    then have "queries (snd (webhook e req now w)) = queries w"
      by (auto simp: webhook_def Let_def split_def)
    then show ?thesis by (rule chat_outcome_same)
  next
    case suggestion
    define q where "q =
        \<lparr> q_id = fresh_query_id (queries ?w1), q_user_id = ?un,
          q_user_name = or_else (user_name ?us) ''Anonymous'',
          query_type = ''Suggestion'', description = Some (or_else (Body req) []),
          photo_url = None, q_location = None, status = ''Pending'',
          q_division = None, divisionName = None, divisionNotified = False,
          divisionOfficersNotified = [] \<rparr>"
    have "webhook e req now w =
            respond e ?us MENU None (Some ?lang) ?un (GetText ''SUGGESTION_RESPONSE'' ?lang [])
              now (Query_save q ?w1)"
      using suggestion by (simp add: webhook_def Let_def split_def q_def)
    moreover have "chat_outcome e (js_of_string (or_null (Latitude req)))
                     (js_of_string (or_null (Longitude req))) now w (Query_save q ?w1)"
      by (rule chat_outcome_locationless [of _ _ q]) (simp_all add: q_def)
    ultimately show ?thesis by (simp add: chat_outcome_respond)
  next
    case location
    have "webhook e req now w =
           awaiting_location e ?us ?un (or_null (Latitude req)) (or_null (Longitude req))
             (or_null (Address req)) (last_option ?us) ?lang now ?w1"
      using location by (simp add: webhook_def Let_def split_def)
    moreover have "chat_outcome e (js_of_string (or_null (Latitude req)))
           (js_of_string (or_null (Longitude req))) now ?w1
           (snd (awaiting_location e ?us ?un (or_null (Latitude req)) (or_null (Longitude req))
             (or_null (Address req)) (last_option ?us) ?lang now ?w1))"
      by (rule awaiting_location_outcome)
    ultimately show ?thesis
      by (simp add: chat_outcome_cong)
  next
    case join
    define q where "q =
        \<lparr> q_id = fresh_query_id (queries ?w1), q_user_id = ?un,
          q_user_name = or_else (user_name ?us) ''Anonymous'',
          query_type = ''Join Request'', description = Some (or_else (Body req) []),
          photo_url = None, q_location = None, status = ''Pending'',
          q_division = None, divisionName = None, divisionNotified = False,
          divisionOfficersNotified = [] \<rparr>"
    define w3 where "w3 = (Query_save q ?w1)
                            \<lparr> events := events (Query_save q ?w1) @ [EmailAttempt (q_id q)] \<rparr>"
    have "webhook e req now w =
            respond e ?us MENU None (Some ?lang) ?un (GetText ''JOIN_RESPONSE'' ?lang []) now w3"
      using join by (simp add: webhook_def Let_def split_def q_def w3_def)
    moreover have "chat_outcome e (js_of_string (or_null (Latitude req)))
                     (js_of_string (or_null (Longitude req))) now w w3"
      by (rule chat_outcome_locationless [of _ _ q]) (simp_all add: q_def w3_def)
    ultimately show ?thesis by (simp add: chat_outcome_respond)
  qed
qed


lemma Session_save_others:
  "filter (\<lambda>t. user_id t \<noteq> user_id s) (Session_save s ss) =
   filter (\<lambda>t. user_id t \<noteq> user_id s) ss"
  by (induction ss) simp_all

lemma Session_save_twice:
  "user_id t = user_id s \<Longrightarrow> Session_save s (Session_save t ss) = Session_save s ss"
  by (induction ss) simp_all

lemma getUserSession_awaiting:
  assumes "current_state (fst (getUserSession u now ss)) = AWAITING_LOCATION"
  shows "\<exists>s0. Session_findOne ss u = Some s0 \<and> user_id s0 = u \<and>
           getUserSession u now ss =
             (s0 \<lparr> last_interaction := now \<rparr>, Session_save (s0 \<lparr> last_interaction := now \<rparr>) ss)"
proof (cases "Session_findOne ss u")
  case None
  then have "current_state (fst (getUserSession u now ss)) = LANGUAGE_SELECT"
    by (simp add: getUserSession_def Let_def)
  with assms show ?thesis by simp
next
  case (Some s0)
  have id: "user_id s0 = u"
    using Some by (auto simp: Session_findOne_def find_Some_iff)
  have nt: "\<not> now - last_interaction s0 > conversationTimeout"
    using assms Some by (auto simp: getUserSession_def Let_def split: if_splits)
  then have "getUserSession u now ss =
             (s0 \<lparr> last_interaction := now \<rparr>, Session_save (s0 \<lparr> last_interaction := now \<rparr>) ss)"
    using Some by (simp add: getUserSession_def Let_def)
  with Some id show ?thesis by simp
qed

lemma or_else_truthy: "d \<noteq> [] \<Longrightarrow> truthy_str (Some (or_else v d))"
  by (simp add: or_else_def truthy_str_def split: option.splits)

lemma webhook_outside:
  assumes st: "current_state (fst (getUserSession (or_else (From req) []) now (sessions w)))
                 = AWAITING_LOCATION"
    and nr: "toLowerCase (or_else (Body req) []) \<noteq> ''reset''"
    and nm: "toLowerCase (or_else (Body req) []) \<noteq> ''menu''"
    and lat: "truthy_str (Latitude req)" and lng: "truthy_str (Longitude req)"
    and dv: "fst (findDivisionForLocation e (js_of_string (Latitude req))
                    (js_of_string (Longitude req)) now w) = None"
  shows "queries (snd (webhook e req now w)) = queries w \<and>
         reportLinks (snd (webhook e req now w)) = reportLinks w \<and>
         divisions (snd (webhook e req now w)) = divisions w \<and>
         (\<exists>s0. Session_findOne (sessions w) (or_else (From req) []) = Some s0 \<and>
            sessions (snd (webhook e req now w)) =
              Session_save
                (s0 \<lparr> current_state := MENU, last_option := None,
                      language := Some (or_else (language s0) ''en''),
                      last_interaction := now \<rparr>)
                (sessions w)) \<and>
         filter (\<lambda>s. user_id s \<noteq> or_else (From req) []) (sessions (snd (webhook e req now w))) =
           filter (\<lambda>s. user_id s \<noteq> or_else (From req) []) (sessions w) \<and>
         events (snd (webhook e req now w)) =
           events w @
             [TwilioCreate (or_else (From req) [])
                (GetText ''LOCATION_OUTSIDE_JURISDICTION''
                   (or_else (language (fst (getUserSession (or_else (From req) []) now
                                              (sessions w)))) ''en'') [])
                (twilio_accepts e (or_else (From req) [])
                   (GetText ''LOCATION_OUTSIDE_JURISDICTION''
                      (or_else (language (fst (getUserSession (or_else (From req) []) now
                                                 (sessions w)))) ''en'') []))]"
proof -
  let ?un = "or_else (From req) []"
  let ?g = "getUserSession ?un now (sessions w)"
  let ?us = "fst ?g"
  let ?lang = "or_else (language ?us) ''en''"
  let ?w1 = "w \<lparr> sessions := snd ?g \<rparr>"
  let ?w2 = "snd (findDivisionForLocation e (js_of_string (Latitude req))
                    (js_of_string (Longitude req)) now ?w1)"
  have ol: "or_null (Latitude req) = Latitude req" "or_null (Longitude req) = Longitude req"
    using lat lng by (simp_all add: or_null_def)
  from getUserSession_awaiting [OF st] obtain s0 where
    s0: "Session_findOne (sessions w) ?un = Some s0" "user_id s0 = ?un"
    and g: "fst ?g = s0 \<lparr> last_interaction := now \<rparr>"
           "snd ?g = Session_save (s0 \<lparr> last_interaction := now \<rparr>) (sessions w)"
    by force
  define s' where "s' = s0 \<lparr> current_state := MENU, last_option := None,
                            language := Some (or_else (language s0) ''en''),
                            last_interaction := now \<rparr>"
  have "webhook e req now w =
          awaiting_location e ?us ?un (Latitude req) (Longitude req) (or_null (Address req))
            (last_option ?us) ?lang now ?w1"
    using webhook_awaiting_location [OF surjective_pairing st nr nm, of e] ol by simp
  also have "\<dots> = respond e ?us MENU None (Some ?lang) ?un
                     (GetText ''LOCATION_OUTSIDE_JURISDICTION'' ?lang []) now ?w2"
    using lat lng dv by (simp add: awaiting_location_def Let_def split_def)
  finally have wh: "webhook e req now w =
      respond e ?us MENU None (Some ?lang) ?un
        (GetText ''LOCATION_OUTSIDE_JURISDICTION'' ?lang []) now ?w2" .
  have "sessions (snd (webhook e req now w)) =
          snd (updateUserSession ?us MENU None (Some ?lang) now (snd ?g))"
    unfolding wh by simp
  also have "\<dots> = Session_save s' (Session_save (s0 \<lparr> last_interaction := now \<rparr>) (sessions w))"
    unfolding g by (simp add: updateUserSession_def Let_def or_else_truthy s'_def)
  also have "\<dots> = Session_save s' (sessions w)"
    by (rule Session_save_twice) (simp add: s'_def)
  finally have ss: "sessions (snd (webhook e req now w)) = Session_save s' (sessions w)" .
  have uid: "user_id s' = ?un" using s0(2) by (simp add: s'_def)
  have oth: "filter (\<lambda>s. user_id s \<noteq> ?un) (sessions (snd (webhook e req now w))) =
             filter (\<lambda>s. user_id s \<noteq> ?un) (sessions w)"
    unfolding ss using Session_save_others [of s' "sessions w"] uid by simp
  have "queries (snd (webhook e req now w)) = queries w"
    "reportLinks (snd (webhook e req now w)) = reportLinks w"
    "divisions (snd (webhook e req now w)) = divisions w"
    "events (snd (webhook e req now w)) =
       events w @ [TwilioCreate ?un (GetText ''LOCATION_OUTSIDE_JURISDICTION'' ?lang [])
                     (twilio_accepts e ?un (GetText ''LOCATION_OUTSIDE_JURISDICTION'' ?lang []))]"
    unfolding wh by simp_all
  with s0(1) ss oth show ?thesis unfolding s'_def by blast
qed

text \<open>
  Claim C8, as the code has it. When the coordinates of a submission resolve to no
  division, no query is stored on either path, and the divisions are left as they are.
  On the capture page path (a request with user and report type) the sessions are left
  as they are, the response is not a success, the first new effect is the attempt to
  send the user the \<^verbatim>\<open>LOCATION_OUTSIDE_JURISDICTION\<close> text, and the status is 400 with the
  error "Location outside jurisdiction" when that message is accepted; when sending it
  throws, the status is 500 with the message of the error and the user is sent the
  \<^verbatim>\<open>REPORT_ERROR\<close> text. The capture link that the request names is marked used all the
  same, before the jurisdiction is checked; no other link changes. On the chat path
  (state \<^verbatim>\<open>AWAITING_LOCATION\<close>, the text not a command) the links are left as they are,
  the only new effect is the reply with the \<^verbatim>\<open>LOCATION_OUTSIDE_JURISDICTION\<close> text, and
  the only change of the sessions is that the stored session of the sender goes to
  \<^verbatim>\<open>MENU\<close> with no last option, its language set to the language of the reply and its
  last interaction to the time of the event: its other fields and the sessions of the
  other users are left as they are.
\<close>

theorem outside_jurisdiction_rejects:
  "(truthy_str (r_userId rreq) \<and> truthy_str (r_reportType rreq) \<and>
    fst (findDivisionForLocation e (r_latitude rreq) (r_longitude rreq) now w) = None \<longrightarrow>
      queries (snd (report_endpoint e rreq now w)) = queries w \<and>
      sessions (snd (report_endpoint e rreq now w)) = sessions w \<and>
      divisions (snd (report_endpoint e rreq now w)) = divisions w \<and>
      reportLinks (snd (report_endpoint e rreq now w)) =
        (if truthy_str (r_linkId rreq)
         then ReportLink_markUsed (the (r_linkId rreq)) (normalizeUserId (r_userId rreq) False)
                now (reportLinks w)
         else reportLinks w) \<and>
      \<not> rr_success (fst (report_endpoint e rreq now w)) \<and>
      (\<exists>to ok.
         to = normalizeUserId (Some (normalizeUserId (r_userId rreq) True)) True \<and>
         ok = twilio_accepts e to (GetText ''LOCATION_OUTSIDE_JURISDICTION'' ''en'' []) \<and>
         events (snd (report_endpoint e rreq now w)) =
           events w @
             TwilioCreate to (GetText ''LOCATION_OUTSIDE_JURISDICTION'' ''en'' []) ok #
             (if ok then []
              else [TwilioCreate to (GetText ''REPORT_ERROR'' ''en'' [])
                      (twilio_accepts e to (GetText ''REPORT_ERROR'' ''en'' []))]) \<and>
         rr_status (fst (report_endpoint e rreq now w)) = (if ok then 400 else 500) \<and>
         rr_error (fst (report_endpoint e rreq now w)) =
           Some (if ok then ''Location outside jurisdiction''
                 else twilio_error e to
                        (GetText ''LOCATION_OUTSIDE_JURISDICTION'' ''en'' [])))) \<and>
   (current_state (fst (getUserSession (or_else (From req) []) now (sessions w)))
      = AWAITING_LOCATION \<and>
    toLowerCase (or_else (Body req) []) \<noteq> ''reset'' \<and>
    toLowerCase (or_else (Body req) []) \<noteq> ''menu'' \<and>
    truthy_str (Latitude req) \<and> truthy_str (Longitude req) \<and>
    fst (findDivisionForLocation e (js_of_string (Latitude req))
           (js_of_string (Longitude req)) now w) = None \<longrightarrow>
      queries (snd (webhook e req now w)) = queries w \<and>
      reportLinks (snd (webhook e req now w)) = reportLinks w \<and>
      divisions (snd (webhook e req now w)) = divisions w \<and>
      (\<exists>s0. Session_findOne (sessions w) (or_else (From req) []) = Some s0 \<and>
         sessions (snd (webhook e req now w)) =
           Session_save
             (s0 \<lparr> current_state := MENU, last_option := None,
                   language := Some (or_else (language s0) ''en''),
                   last_interaction := now \<rparr>)
             (sessions w)) \<and>
      filter (\<lambda>s. user_id s \<noteq> or_else (From req) []) (sessions (snd (webhook e req now w))) =
        filter (\<lambda>s. user_id s \<noteq> or_else (From req) []) (sessions w) \<and>
      events (snd (webhook e req now w)) =
        events w @
          [TwilioCreate (or_else (From req) [])
             (GetText ''LOCATION_OUTSIDE_JURISDICTION''
                (or_else (language (fst (getUserSession (or_else (From req) []) now
                                           (sessions w)))) ''en'') [])
             (twilio_accepts e (or_else (From req) [])
                (GetText ''LOCATION_OUTSIDE_JURISDICTION''
                   (or_else (language (fst (getUserSession (or_else (From req) []) now
                                              (sessions w)))) ''en'') []))])"
  using report_endpoint_outside [of rreq e now w] webhook_outside [of req now w e]
  by blast

text \<open>
  The claim as stated fails: a rejected submission of the capture page sets the used flag
  of its capture link.
\<close>

theorem outside_jurisdiction_link_counterexample:
  "fst (findDivisionForLocation example_env (JString ''28.61'') (JString ''77.20'') 1000
          example_world) = None \<and>
   map l_used (reportLinks example_world) = [False] \<and>
   map l_used (reportLinks (snd (report_endpoint example_env (example_report ''28.61'' ''77.20'')
                                   1000 example_world))) = [True] \<and>
   map l_usedAt (reportLinks (snd (report_endpoint example_env (example_report ''28.61'' ''77.20'')
                                   1000 example_world))) = [Some 1000] \<and>
   rr_status (fst (report_endpoint example_env (example_report ''28.61'' ''77.20'') 1000
                     example_world)) = 400 \<and>
   rr_error (fst (report_endpoint example_env (example_report ''28.61'' ''77.20'') 1000
                     example_world)) = Some ''Location outside jurisdiction''"
  by code_simp

text \<open>
  In the example world a submission of the capture page and a location message at a point
  outside the division store nothing: the one is answered with 400, the other leaves the
  session of the sender in the menu with its name and its draft.
\<close>

theorem outside_jurisdiction_rejects_witness:
  "queries (snd (report_endpoint example_env (example_report ''28.61'' ''77.20'') 1000
                   example_world)) = [] \<and>
   \<not> rr_success (fst (report_endpoint example_env (example_report ''28.61'' ''77.20'') 1000
                        example_world)) \<and>
   queries (snd (webhook example_env
                   (example_location ''whatsapp:+919999999999'' ''28.61'' ''77.20'') 1000
                   example_world)) = [] \<and>
   sessions (snd (webhook example_env
                   (example_location ''whatsapp:+919999999999'' ''28.61'' ''77.20'') 1000
                   example_world)) =
     [example_session \<lparr> current_state := MENU, last_option := None,
                        last_interaction := 1000 \<rparr>] \<and>
   events (snd (webhook example_env
                   (example_location ''whatsapp:+919999999999'' ''28.61'' ''77.20'') 1000
                   example_world)) =
     [TwilioCreate ''whatsapp:+919999999999''
        (GetText ''LOCATION_OUTSIDE_JURISDICTION'' ''mr'' []) True]"
proof -
  let ?rreq = "example_report ''28.61'' ''77.20''"
  let ?req = "example_location ''whatsapp:+919999999999'' ''28.61'' ''77.20''"
  let ?w' = "snd (webhook example_env ?req 1000 example_world)"
  have r: "truthy_str (r_userId ?rreq)" "truthy_str (r_reportType ?rreq)"
    "fst (findDivisionForLocation example_env (r_latitude ?rreq) (r_longitude ?rreq) 1000
            example_world) = None"
    by code_simp+
  have h: "current_state (fst (getUserSession (or_else (From ?req) []) 1000
                                 (sessions example_world))) = AWAITING_LOCATION"
    "toLowerCase (or_else (Body ?req) []) \<noteq> ''reset''"
    "toLowerCase (or_else (Body ?req) []) \<noteq> ''menu''"
    "truthy_str (Latitude ?req)" "truthy_str (Longitude ?req)"
    "fst (findDivisionForLocation example_env (js_of_string (Latitude ?req))
            (js_of_string (Longitude ?req)) 1000 example_world) = None"
    by code_simp+
  have c: "or_else (From ?req) [] = ''whatsapp:+919999999999''"
    "or_else (language (fst (getUserSession ''whatsapp:+919999999999'' 1000
                               (sessions example_world)))) ''en'' = ''mr''"
    "twilio_accepts example_env ''whatsapp:+919999999999''
       (GetText ''LOCATION_OUTSIDE_JURISDICTION'' ''mr'' [])"
    "queries example_world = []" "events example_world = []"
    by code_simp+
  have f: "Session_findOne (sessions example_world) (or_else (From ?req) []) = Some example_session"
    "Session_save
       (example_session \<lparr> current_state := MENU, last_option := None,
                          language := Some (or_else (language example_session) ''en''),
                          last_interaction := 1000 \<rparr>)
       (sessions example_world) =
     [example_session \<lparr> current_state := MENU, last_option := None,
                        last_interaction := 1000 \<rparr>]"
    by code_simp+
  note t = outside_jurisdiction_rejects [of ?rreq example_env 1000 example_world ?req]
  from t r
  have web: "queries (snd (report_endpoint example_env ?rreq 1000 example_world)) = queries example_world"
    "\<not> rr_success (fst (report_endpoint example_env ?rreq 1000 example_world))"
    by blast+
  from t h
  have chat: "queries ?w' = queries example_world"
    "\<exists>s0. Session_findOne (sessions example_world) (or_else (From ?req) []) = Some s0 \<and>
         sessions ?w' =
           Session_save
             (s0 \<lparr> current_state := MENU, last_option := None,
                   language := Some (or_else (language s0) ''en''),
                   last_interaction := 1000 \<rparr>)
             (sessions example_world)"
    "events ?w' =
        events example_world @
          [TwilioCreate (or_else (From ?req) [])
             (GetText ''LOCATION_OUTSIDE_JURISDICTION''
                (or_else (language (fst (getUserSession (or_else (From ?req) []) 1000
                                           (sessions example_world)))) ''en'') [])
             (twilio_accepts example_env (or_else (From ?req) [])
                (GetText ''LOCATION_OUTSIDE_JURISDICTION''
                   (or_else (language (fst (getUserSession (or_else (From ?req) []) 1000
                                              (sessions example_world)))) ''en'') []))]"
    by blast+
  from chat(2) f(1) have "sessions ?w' =
           Session_save
             (example_session \<lparr> current_state := MENU, last_option := None,
                   language := Some (or_else (language example_session) ''en''),
                   last_interaction := 1000 \<rparr>)
             (sessions example_world)"
    by auto
  then have s: "sessions ?w' =
     [example_session \<lparr> current_state := MENU, last_option := None,
                        last_interaction := 1000 \<rparr>]"
    using f(2) by (rule trans)
  from web chat(1,3) s show ?thesis
    unfolding c(1,2,4,5) using c(3) by simp
qed


text \<open>
  Claim C1, as the code has it. A chat event and a submission of the capture page each
  store at most one query, and a query with a location is stored only when the
  coordinates of the request resolve to a division: the stored query carries the numbers
  of these coordinates and the identifier of the division that the lookup of the
  coordinates gives in the state before the request. On the chat path it carries the name
  of this division, is marked as notified with a non-empty list of notified officers, and
  among the new effects an accepted notification of an officer precedes its save. On the
  capture page path it carries the name of the first stored division with this
  identifier, which is the division of the lookup when the identifiers are distinct, and
  its save is the first new effect: the officers are notified after the save, and the
  save does not depend on them.
\<close>

theorem location_reports_guarded:
  "((queries (snd (webhook e req now w)) = queries w \<or>
     (\<exists>q. queries (snd (webhook e req now w)) = queries w @ [q])) \<and>
    (\<forall>q. queries (snd (webhook e req now w)) = queries w @ [q] \<and> q_location q \<noteq> None \<longrightarrow>
       (\<exists>d a. fst (findDivisionForLocation e (js_of_string (Latitude req))
                     (js_of_string (Longitude req)) now w) = Some d \<and>
          q_division q = Some (d_id d) \<and> divisionName q = Some (d_name d) \<and>
          q_location q =
            Some \<lparr> latitude = parseFloat (parseFloat_string e) (js_of_string (Latitude req)),
                   longitude = parseFloat (parseFloat_string e) (js_of_string (Longitude req)),
                   address = a \<rparr>) \<and>
       divisionNotified q \<and> divisionOfficersNotified q \<noteq> [] \<and>
       (\<exists>pre to m.
          prefix (events w @ pre @ [QuerySaved q]) (events (snd (webhook e req now w))) \<and>
          TwilioCreate to m True \<in> set pre \<and> is_officer_alert m))) \<and>
   ((queries (snd (report_endpoint e rreq now w)) = queries w \<or>
     (\<exists>q. queries (snd (report_endpoint e rreq now w)) = queries w @ [q])) \<and>
    (\<forall>q. queries (snd (report_endpoint e rreq now w)) = queries w @ [q] \<longrightarrow>
       (\<exists>d0 d a. fst (findDivisionForLocation e (r_latitude rreq) (r_longitude rreq) now w)
                    = Some d0 \<and>
          Division_findById (divisions w) (d_id d0) = Some d \<and>
          (distinct (map d_id (divisions w)) \<longrightarrow> d = d0) \<and>
          q_division q = Some (d_id d0) \<and> divisionName q = Some (d_name d) \<and>
          q_location q =
            Some \<lparr> latitude = parseFloat (parseFloat_string e) (r_latitude rreq),
                   longitude = parseFloat (parseFloat_string e) (r_longitude rreq),
                   address = a \<rparr>) \<and>
       (\<exists>q0. q_id q0 = q_id q \<and>
          prefix (events w @ [QuerySaved q0]) (events (snd (report_endpoint e rreq now w))))))"
proof -
  let ?lat = "js_of_string (Latitude req)"
  let ?lng = "js_of_string (Longitude req)"
  let ?w' = "snd (webhook e req now w)"
  let ?v' = "snd (report_endpoint e rreq now w)"
  have a: "chat_outcome e (js_of_string (or_null (Latitude req)))
             (js_of_string (or_null (Longitude req))) now w ?w'"
    by (rule webhook_outcome)
  have b: "endpoint_outcome e (r_latitude rreq) (r_longitude rreq) now w ?v'"
    by (rule report_endpoint_outcome)
  have 1: "queries ?w' = queries w \<or> (\<exists>q. queries ?w' = queries w @ [q])"
    using a unfolding chat_outcome_def by blast
  have 2: "(\<exists>d a. fst (findDivisionForLocation e ?lat ?lng now w) = Some d \<and>
          q_division q = Some (d_id d) \<and> divisionName q = Some (d_name d) \<and>
          q_location q =
            Some \<lparr> latitude = parseFloat (parseFloat_string e) ?lat,
                   longitude = parseFloat (parseFloat_string e) ?lng, address = a \<rparr>) \<and>
       divisionNotified q \<and> divisionOfficersNotified q \<noteq> [] \<and>
       (\<exists>pre to m.
          prefix (events w @ pre @ [QuerySaved q]) (events ?w') \<and>
          TwilioCreate to m True \<in> set pre \<and> is_officer_alert m)"
    if "queries ?w' = queries w @ [q]" "q_location q \<noteq> None" for q
  proof -
    from a that obtain d ad where
      x: "fst (findDivisionForLocation e (js_of_string (or_null (Latitude req)))
                (js_of_string (or_null (Longitude req))) now w) = Some d"
         "q_division q = Some (d_id d)" "divisionName q = Some (d_name d)"
         "q_location q =
            Some \<lparr> latitude = parseFloat (parseFloat_string e)
                                (js_of_string (or_null (Latitude req))),
                   longitude = parseFloat (parseFloat_string e)
                                 (js_of_string (or_null (Longitude req))),
                   address = ad \<rparr>"
      and y: "divisionNotified q" "divisionOfficersNotified q \<noteq> []"
         "\<exists>pre to m. prefix (events w @ pre @ [QuerySaved q]) (events ?w') \<and>
             TwilioCreate to m True \<in> set pre \<and> is_officer_alert m"
      unfolding chat_outcome_def by auto
    from findDivision_result [OF x(1)]
    have "or_null (Latitude req) = Latitude req" "or_null (Longitude req) = Longitude req"
      by (auto simp: or_null_def js_of_string_def truthy_def split: if_splits)
    with x y show ?thesis by auto
  qed
  have 3: "queries ?v' = queries w \<or> (\<exists>q. queries ?v' = queries w @ [q])"
    using b unfolding endpoint_outcome_def by blast
  have 4: "(\<exists>d0 d a. fst (findDivisionForLocation e (r_latitude rreq) (r_longitude rreq) now w)
                    = Some d0 \<and>
          Division_findById (divisions w) (d_id d0) = Some d \<and>
          (distinct (map d_id (divisions w)) \<longrightarrow> d = d0) \<and>
          q_division q = Some (d_id d0) \<and> divisionName q = Some (d_name d) \<and>
          q_location q =
            Some \<lparr> latitude = parseFloat (parseFloat_string e) (r_latitude rreq),
                   longitude = parseFloat (parseFloat_string e) (r_longitude rreq),
                   address = a \<rparr>) \<and>
       (\<exists>q0. q_id q0 = q_id q \<and> prefix (events w @ [QuerySaved q0]) (events ?v'))"
    if "queries ?v' = queries w @ [q]" for q
  proof -
    from b that obtain q0 d0 d ad where
      x: "fst (findDivisionForLocation e (r_latitude rreq) (r_longitude rreq) now w) = Some d0"
         "Division_findById (divisions w) (d_id d0) = Some d"
         "q_division q = Some (d_id d0)" "divisionName q = Some (d_name d)"
         "q_location q =
            Some \<lparr> latitude = parseFloat (parseFloat_string e) (r_latitude rreq),
                   longitude = parseFloat (parseFloat_string e) (r_longitude rreq),
                   address = ad \<rparr>"
         "q_id q0 = q_id q" "prefix (events w @ [QuerySaved q0]) (events ?v')"
      unfolding endpoint_outcome_def by auto
    have "d = d0" if "distinct (map d_id (divisions w))"
      using findById_distinct [OF that, of d0] findDivision_result [OF x(1)] x(2) by simp
    with x show ?thesis by blast
  qed
  from 1 2 3 4 show ?thesis by blast
qed


text \<open>
  The claim as stated fails: a submission of the capture page inside the example division,
  which has no officer, stores a query with a location although no officer was notified;
  with an officer, the notification follows the save.
\<close>

theorem saved_without_notification_counterexample:
  "map q_division
     (queries (snd (report_endpoint example_env (example_report ''18.62'' ''73.80'') 1000
                      example_world))) = [Some 1] \<and>
   map (\<lambda>q. q_location q = None)
     (queries (snd (report_endpoint example_env (example_report ''18.62'' ''73.80'') 1000
                      example_world))) = [False] \<and>
   map divisionNotified
     (queries (snd (report_endpoint example_env (example_report ''18.62'' ''73.80'') 1000
                      example_world))) = [False] \<and>
   map event_kind
     (events (snd (report_endpoint example_env (example_report ''18.62'' ''73.80'') 1000
                     example_world))) = [''save'', ''reply''] \<and>
   map event_kind
     (events (snd (report_endpoint example_env (example_report ''18.62'' ''73.80'') 1000
                     example_world_staffed))) = [''save'', ''reply'', ''officer alert'']"
  by code_simp

text \<open>
  In the example world with an officer, a location message inside the division stores a
  notified query of division 1 after the notification of the officer, and a submission
  of the capture page stores a query of division 1.
\<close>

theorem location_reports_guarded_witness:
  "map divisionNotified
     (queries (snd (webhook example_env
                      (example_location ''whatsapp:+919999999999'' ''18.62'' ''73.80'') 1000
                      example_world_staffed))) = [True] \<and>
   map q_division
     (queries (snd (webhook example_env
                      (example_location ''whatsapp:+919999999999'' ''18.62'' ''73.80'') 1000
                      example_world_staffed))) = [Some 1] \<and>
   map event_kind
     (events (snd (webhook example_env
                      (example_location ''whatsapp:+919999999999'' ''18.62'' ''73.80'') 1000
                      example_world_staffed)))
     = [''officer alert'', ''save'', ''officer alert'', ''email'', ''reply''] \<and>
   map q_division
     (queries (snd (report_endpoint example_env (example_report ''18.62'' ''73.80'') 1000
                      example_world_staffed))) = [Some 1]"
proof -
  let ?req = "example_location ''whatsapp:+919999999999'' ''18.62'' ''73.80''"
  let ?rreq = "example_report ''18.62'' ''73.80''"
  let ?w = "snd (webhook example_env ?req 1000 example_world_staffed)"
  let ?v = "snd (report_endpoint example_env ?rreq 1000 example_world_staffed)"
  have l: "length (queries ?w) = 1" "length (queries ?v) = 1"
    by code_simp+
  have l3: "map (\<lambda>q. q_location q = None) (queries ?w) = [False]"
    by code_simp
  have k: "map event_kind (events ?w)
     = [''officer alert'', ''save'', ''officer alert'', ''email'', ''reply'']"
    by code_simp
  have e: "queries example_world_staffed = []"
    "fst (findDivisionForLocation example_env (js_of_string (Latitude ?req))
            (js_of_string (Longitude ?req)) 1000 example_world_staffed)
       = Some example_division_staffed"
    "fst (findDivisionForLocation example_env (r_latitude ?rreq) (r_longitude ?rreq) 1000
            example_world_staffed) = Some example_division_staffed"
    "d_id example_division_staffed = 1"
    by code_simp+
  from l(1) obtain q where q: "queries ?w = [q]"
    by (cases "queries ?w") simp_all
  from l(2) obtain r where r: "queries ?v = [r]"
    by (cases "queries ?v") simp_all
  have ql: "q_location q \<noteq> None" using l3 q by simp
  have qw: "queries ?w = queries example_world_staffed @ [q]" using q e(1) by simp
  have qv: "queries ?v = queries example_world_staffed @ [r]" using r e(1) by simp
  from location_reports_guarded [of example_env ?req 1000 example_world_staffed ?rreq]
    qw qv ql
  have "divisionNotified q"
    "\<exists>d. fst (findDivisionForLocation example_env (js_of_string (Latitude ?req))
                (js_of_string (Longitude ?req)) 1000 example_world_staffed) = Some d \<and>
         q_division q = Some (d_id d)"
    "\<exists>d. fst (findDivisionForLocation example_env (r_latitude ?rreq) (r_longitude ?rreq) 1000
                example_world_staffed) = Some d \<and>
         q_division r = Some (d_id d)"
    by blast+
  then have "divisionNotified q" "q_division q = Some 1" "q_division r = Some 1"
    unfolding e(2,3) by (simp_all add: e(4))
  then show ?thesis unfolding q r using k by simp
qed

end
